theory Spec2Isabelle
  imports Main "HOL-Library.Word"
begin

section \<open>JavaScript string primitives used by the code\<close>

text \<open>
  A JavaScript string is a sequence of UTF-16 code units. The text that a user types
  into the widget is arbitrary, and is modelled as a list of 16-bit words (see
  \<open>jsString\<close> below). Hexadecimal signatures, header values, tokens and status
  messages are modelled as a \<open>string\<close>, whose characters are the code units
  \<open>U+0000\<close> to \<open>U+00FF\<close>.
\<close>

definition isStrWhiteSpaceChar :: "char \<Rightarrow> bool" where
  \<comment> \<open>White space and line terminators of ECMAScript below \<open>U+0100\<close>:
      TAB, LF, VT, FF, CR, SP, NBSP.\<close>
  "isStrWhiteSpaceChar c = ((of_char c :: nat) \<in> set [9, 10, 11, 12, 13, 32, 160])"

definition hexDigitValue :: "char \<Rightarrow> nat option" where
  \<comment> \<open>The value of a radix-16 digit, \<open>None\<close> for any other code unit.\<close>
  "hexDigitValue c =
     (let n = (of_char c :: nat) in
      if 48 \<le> n \<and> n \<le> 57 then Some (n - 48)
      else if 97 \<le> n \<and> n \<le> 102 then Some (n - 87)
      else if 65 \<le> n \<and> n \<le> 70 then Some (n - 55)
      else None)"

definition isHexDigit :: "char \<Rightarrow> bool" where
  "isHexDigit c = (hexDigitValue c \<noteq> None)"

definition mathInt :: "string \<Rightarrow> nat" where
  \<comment> \<open>The integer written by a string of radix-16 digits.\<close>
  "mathInt Z = foldl (\<lambda>acc c. case hexDigitValue c of Some d \<Rightarrow> 16 * acc + d | None \<Rightarrow> acc) 0 Z"

definition parseInt16 :: "string \<Rightarrow> int option" where
  \<comment> \<open>\<open>parseInt(inputString, 16)\<close>; \<open>None\<close> is \<open>NaN\<close>. Leading white space is
      skipped, then one sign, then one \<open>0x\<close> or \<open>0X\<close>; the longest run of hex digits
      that follows is the number. (The value is exact up to 13 digits; the code
      only passes two code units.)\<close>
  "parseInt16 inputString =
     (let S = dropWhile isStrWhiteSpaceChar inputString;
          sign = (if S \<noteq> [] \<and> hd S = CHR ''-'' then - 1 else (1::int));
          S1 = (if S \<noteq> [] \<and> (hd S = CHR ''+'' \<or> hd S = CHR ''-'') then tl S else S);
          S2 = (if 2 \<le> length S1 \<and> (take 2 S1 = ''0x'' \<or> take 2 S1 = ''0X'')
                then drop 2 S1 else S1);
          Z = takeWhile isHexDigit S2
      in if Z = [] then None else Some (sign * int (mathInt Z)))"

definition sliceFrom :: "int \<Rightarrow> string \<Rightarrow> string" where
  \<comment> \<open>\<open>s.slice(start)\<close>: a negative index counts from the end, and indices are
      clamped to the string.\<close>
  "sliceFrom start s =
     (let len = int (length s);
          from = (if start < 0 then max (len + start) 0 else min start len)
      in drop (nat from) s)"

definition slice :: "int \<Rightarrow> int \<Rightarrow> string \<Rightarrow> string" where
  \<comment> \<open>\<open>s.slice(start, fin)\<close>.\<close>
  "slice start fin s =
     (let len = int (length s);
          from = (if start < 0 then max (len + start) 0 else min start len);
          to = (if fin < 0 then max (len + fin) 0 else min fin len)
      in take (nat (max (to - from) 0)) (drop (nat from) s))"

definition digitChar :: "nat \<Rightarrow> char" where
  \<comment> \<open>The lowercase digit that \<open>Number.prototype.toString\<close> writes for a value below 16.\<close>
  "digitChar d = ''0123456789abcdef'' ! (d mod 16)"

fun hexDigits :: "nat \<Rightarrow> string" where
  "hexDigits n = (if n < 16 then [digitChar n] else hexDigits (n div 16) @ [digitChar (n mod 16)])"

definition toString16 :: "int \<Rightarrow> string" where
  \<comment> \<open>\<open>n.toString(16)\<close> for an integer \<open>n\<close>.\<close>
  "toString16 n = (if n < 0 then CHR ''-'' # hexDigits (nat (- n)) else hexDigits (nat n))"

definition padStart :: "nat \<Rightarrow> char \<Rightarrow> string \<Rightarrow> string" where
  \<comment> \<open>\<open>s.padStart(targetLength, c)\<close> with a one-character filler.\<close>
  "padStart targetLength c s = replicate (targetLength - length s) c @ s"

section \<open>The signature normalizer of \<open>customSignMessage\<close>\<close>

definition lastByte :: "string \<Rightarrow> int option" where
  "lastByte signature = parseInt16 (sliceFrom (- 2) signature)"

definition adjustedV :: "int \<Rightarrow> string" where
  "adjustedV lb = padStart 2 (CHR ''0'') (toString16 (lb + 27))"

definition adjustSignature :: "string \<Rightarrow> string" where
  \<comment> \<open>The variable \<open>signature\<close> after the adjustment of the v value. The comparison
      \<open>NaN < 27\<close> is false.\<close>
  "adjustSignature signature =
     (case lastByte signature of
        None \<Rightarrow> signature
      | Some lb \<Rightarrow> if lb < 27 then slice 0 (- 2) signature @ adjustedV lb else signature)"

definition normalizer :: "string \<Rightarrow> string" where
  \<comment> \<open>What \<open>customSignMessage\<close> returns for the signature that the signing call gave.\<close>
  "normalizer signature = ''0x'' @ adjustSignature signature"

definition customSignMessage :: "('m \<Rightarrow> string) \<Rightarrow> 'm \<Rightarrow> string" where
  \<comment> \<open>The first argument stands for hashing the message and the signing call of the
      wallet service, up to the field \<open>signature\<close> of its result.\<close>
  "customSignMessage signMessage message = normalizer (signMessage message)"

subsection \<open>The shape the caller guarantees\<close>

definition isLowerHexDigit :: "char \<Rightarrow> bool" where
  "isLowerHexDigit c = (c \<in> set ''0123456789abcdef'')"

definition isSignature130 :: "string \<Rightarrow> bool" where
  "isSignature130 s = (length s = 130 \<and> list_all isHexDigit s)"

definition isPrefixedSignature :: "string \<Rightarrow> bool" where
  \<comment> \<open>The other shape the specification admits: the 130 hexadecimal characters behind
      a prefix \<open>0x\<close>.\<close>
  "isPrefixedSignature s = (take 2 s = ''0x'' \<and> isSignature130 (drop 2 s))"

section \<open>The request handler \<open>signWithAlchemy\<close>\<close>

text \<open>
  The handler talks to collaborators that live outside the file: the token check, the
  key share store, the decryption, the wallet service and the relayer client. They are
  parameters of the model. A call of a collaborator either throws (\<open>Inl\<close>) or gives
  a value (\<open>Inr\<close>); the handler has no \<open>try\<close>, so what a collaborator throws rejects
  the handler's promise. The handler's result is paired with the collaborator calls it
  made, in order.
\<close>

datatype thrown = Thrown string

datatype response = Response (body: string) (statusCode: nat)

datatype outcome = Returned response | Rejected thrown

datatype user = User (user_email: string)

datatype requestBody = RequestBody (body_email: "string option")

record request =
  authorization :: "string option"
  json :: "thrown + requestBody"

record env =
  PARA_API_KEY :: "string option"
  ALCHEMY_API_KEY :: "string option"
  ALCHEMY_GAS_POLICY_ID :: "string option"

type_synonym callData = "string \<times> string \<times> nat"

datatype call =
    SimulateVerifyToken "string option"
  | ReqJson
  | NewParaServer string
  | HasPregenWallet string
  | GetKeyShareInDB string
  | Decrypt string
  | SetUserShare string
  | CreateParaAccount
  | CreateParaViemClient
  | CreateModularAccountAlchemyClient string string
  | SendUserOperation "callData list"

record collaborators =
  simulateVerifyToken :: "string option \<Rightarrow> thrown + user option"
  hasPregenWallet :: "string \<Rightarrow> thrown + bool"
  getKeyShareInDB :: "string \<Rightarrow> thrown + string option"
  decrypt :: "string \<Rightarrow> thrown + string"
  setUserShare :: "string \<Rightarrow> thrown + unit"
  createParaAccount :: "thrown + unit"
  createModularAccountAlchemyClient :: "string \<Rightarrow> string \<Rightarrow> thrown + unit"
  sendUserOperation :: "callData list \<Rightarrow> thrown + string"

definition truthy :: "string option \<Rightarrow> bool" where
  \<comment> \<open>A string that may be \<open>null\<close> or \<open>undefined\<close> is truthy when it is present and
      not empty.\<close>
  "truthy v = (case v of None \<Rightarrow> False | Some s \<Rightarrow> s \<noteq> [])"

definition str :: "string option \<Rightarrow> string" where
  \<comment> \<open>The string behind a value that has been checked to be truthy.\<close>
  "str v = (case v of None \<Rightarrow> [] | Some s \<Rightarrow> s)"

definition startsWith :: "string \<Rightarrow> string \<Rightarrow> bool" where
  "startsWith s p = (take (length p) s = p)"

fun splitOn :: "char \<Rightarrow> string \<Rightarrow> string list" where
  \<comment> \<open>\<open>s.split(sep)\<close> for a separator of one character.\<close>
  "splitOn sep [] = [[]]"
| "splitOn sep (c # cs) =
     (if c = sep then [] # splitOn sep cs
      else (case splitOn sep cs of [] \<Rightarrow> [[c]] | w # ws \<Rightarrow> (c # w) # ws))"

definition at :: "'a list \<Rightarrow> nat \<Rightarrow> 'a option" where
  \<comment> \<open>\<open>xs[i]\<close>, which is \<open>undefined\<close> out of range.\<close>
  "at xs i = (if i < length xs then Some (xs ! i) else None)"

definition tokenOf :: "string \<Rightarrow> string option" where
  \<comment> \<open>\<open>authHeader.split(" ")[1]\<close>.\<close>
  "tokenOf authHeader = at (splitOn (CHR '' '') authHeader) 1"

definition EXAMPLE_CONTRACT_ADDRESS :: string where
  "EXAMPLE_CONTRACT_ADDRESS = ''0x7920b6d8b07f0b9a3b96f238c64e022278db1419''"

definition demoUserOperations :: "callData list" where
  "demoUserOperations = map (\<lambda>x. (EXAMPLE_CONTRACT_ADDRESS, ''changeX'', x)) [1, 2, 3, 4, 5]"

text \<open>
  The handler is one function in the source. It is written here as its six
  consecutive parts, the last part first; each part takes the calls made so far.
\<close>

definition signWithAlchemy_submit ::
  "collaborators \<Rightarrow> string \<Rightarrow> string \<Rightarrow> string \<Rightarrow> call list \<Rightarrow> outcome \<times> call list" where
  \<comment> \<open>From \<open>para.setUserShare\<close> to the final response.\<close>
  "signWithAlchemy_submit c alchemyApiKey alchemyGasPolicyId decryptedKeyShare t5 =
     (let t6 = t5 @ [SetUserShare decryptedKeyShare] in
      case setUserShare c decryptedKeyShare of
        Inl e \<Rightarrow> (Rejected e, t6)
      | Inr _ \<Rightarrow>
      let t7 = t6 @ [CreateParaAccount] in
      case createParaAccount c of
        Inl e \<Rightarrow> (Rejected e, t7)
      | Inr _ \<Rightarrow>
      let t8 = t7 @ [CreateParaViemClient,
                     CreateModularAccountAlchemyClient alchemyApiKey alchemyGasPolicyId] in
      case createModularAccountAlchemyClient c alchemyApiKey alchemyGasPolicyId of
        Inl e \<Rightarrow> (Rejected e, t8)
      | Inr _ \<Rightarrow>
      let t9 = t8 @ [SendUserOperation demoUserOperations] in
      case sendUserOperation c demoUserOperations of
        Inl e \<Rightarrow> (Rejected e, t9)
      | Inr userOperationResult \<Rightarrow>
          (Returned (Response (''{\"route\":\"signWithAlchemy\",\"userOperationResult\":''
                               @ userOperationResult @ ''}'') 200), t9))"

definition signWithAlchemy_keyShare ::
  "collaborators \<Rightarrow> string \<Rightarrow> string \<Rightarrow> string \<Rightarrow> call list \<Rightarrow> outcome \<times> call list" where
  \<comment> \<open>Retrieve and decrypt the key share.\<close>
  "signWithAlchemy_keyShare c alchemyApiKey alchemyGasPolicyId email t3 =
     (let t4 = t3 @ [GetKeyShareInDB email] in
      case getKeyShareInDB c email of
        Inl e \<Rightarrow> (Rejected e, t4)
      | Inr keyShare \<Rightarrow>
      if \<not> truthy keyShare then (Returned (Response ''Key share does not exist'' 400), t4)
      else
      let t5 = t4 @ [Decrypt (str keyShare)] in
      case decrypt c (str keyShare) of
        Inl e \<Rightarrow> (Rejected e, t5)
      | Inr decryptedKeyShare \<Rightarrow>
          signWithAlchemy_submit c alchemyApiKey alchemyGasPolicyId decryptedKeyShare t5)"

definition signWithAlchemy_wallet ::
  "collaborators \<Rightarrow> string \<Rightarrow> string \<Rightarrow> string \<Rightarrow> string \<Rightarrow> call list \<Rightarrow> outcome \<times> call list" where
  \<comment> \<open>Initialize the wallet service client and check that the wallet exists.\<close>
  "signWithAlchemy_wallet c paraApiKey alchemyApiKey alchemyGasPolicyId email t2 =
     (let t3 = t2 @ [NewParaServer paraApiKey, HasPregenWallet email] in
      case hasPregenWallet c email of
        Inl e \<Rightarrow> (Rejected e, t3)
      | Inr hasWallet \<Rightarrow>
      if \<not> hasWallet then (Returned (Response ''Wallet does not exist'' 400), t3)
      else signWithAlchemy_keyShare c alchemyApiKey alchemyGasPolicyId email t3)"

definition signWithAlchemy_env ::
  "collaborators \<Rightarrow> env \<Rightarrow> string \<Rightarrow> call list \<Rightarrow> outcome \<times> call list" where
  \<comment> \<open>Ensure that the environment variables are set.\<close>
  "signWithAlchemy_env c env email t2 =
     (let paraApiKey = PARA_API_KEY env;
          alchemyApiKey = ALCHEMY_API_KEY env;
          alchemyGasPolicyId = ALCHEMY_GAS_POLICY_ID env in
      if \<not> truthy paraApiKey then (Returned (Response ''PARA_API_KEY not set'' 500), t2)
      else if \<not> truthy alchemyApiKey \<or> \<not> truthy alchemyGasPolicyId
      then (Returned (Response ''ALCHEMY_API_KEY or ALCHEMY_GAS_POLICY_ID not set'' 500), t2)
      else signWithAlchemy_wallet c (str paraApiKey) (str alchemyApiKey) (str alchemyGasPolicyId)
             email t2)"

definition signWithAlchemy_body ::
  "collaborators \<Rightarrow> env \<Rightarrow> request \<Rightarrow> user \<Rightarrow> call list \<Rightarrow> outcome \<times> call list" where
  \<comment> \<open>Parse and validate the request body.\<close>
  "signWithAlchemy_body c env req user t1 =
     (let t2 = t1 @ [ReqJson] in
      case json req of
        Inl e \<Rightarrow> (Rejected e, t2)
      | Inr reqBody \<Rightarrow>
      let email = body_email reqBody in
      if \<not> truthy email then (Returned (Response ''Email is required'' 400), t2)
      else if Some (user_email user) \<noteq> email then (Returned (Response ''Forbidden'' 403), t2)
      else signWithAlchemy_env c env (str email) t2)"

definition signWithAlchemy :: "collaborators \<Rightarrow> env \<Rightarrow> request \<Rightarrow> outcome \<times> call list" where
  \<comment> \<open>Extract and validate the Authorization header, verify the token.\<close>
  "signWithAlchemy c env req =
     (let authHeader = authorization req in
      if \<not> truthy authHeader \<or> \<not> startsWith (str authHeader) ''Bearer ''
      then (Returned (Response ''Unauthorized'' 401), [])
      else
      let token = tokenOf (str authHeader);
          t1 = [SimulateVerifyToken token] in
      case simulateVerifyToken c token of
        Inl e \<Rightarrow> (Rejected e, t1)
      | Inr None \<Rightarrow> (Returned (Response ''Unauthorized'' 401), t1)
      | Inr (Some user) \<Rightarrow> signWithAlchemy_body c env req user t1)"

subsection \<open>The gates, as conditions on a request and its surroundings\<close>

text \<open>
  What it means for a request to pass each check of the handler, with the values the
  check yields: the header \<open>h\<close>, the verified user, the email, the three secrets and
  the stored key share.
\<close>

definition gate1 :: "request \<Rightarrow> string \<Rightarrow> bool" where
  "gate1 req h = (authorization req = Some h \<and> startsWith h ''Bearer '')"

definition gate2 :: "collaborators \<Rightarrow> string \<Rightarrow> user \<Rightarrow> bool" where
  "gate2 c h user = (simulateVerifyToken c (tokenOf h) = Inr (Some user))"

definition gate3 :: "request \<Rightarrow> user \<Rightarrow> string \<Rightarrow> bool" where
  "gate3 req user email =
     (json req = Inr (RequestBody (Some email)) \<and> email \<noteq> [] \<and> user_email user = email)"

definition gate4 :: "env \<Rightarrow> string \<Rightarrow> string \<Rightarrow> string \<Rightarrow> bool" where
  "gate4 env pk ak gp =
     (PARA_API_KEY env = Some pk \<and> pk \<noteq> [] \<and> ALCHEMY_API_KEY env = Some ak \<and> ak \<noteq> []
      \<and> ALCHEMY_GAS_POLICY_ID env = Some gp \<and> gp \<noteq> [])"

definition gate5 :: "collaborators \<Rightarrow> string \<Rightarrow> bool" where
  "gate5 c email = (hasPregenWallet c email = Inr True)"

definition gate6 :: "collaborators \<Rightarrow> string \<Rightarrow> string \<Rightarrow> bool" where
  "gate6 c email keyShare = (getKeyShareInDB c email = Inr (Some keyShare) \<and> keyShare \<noteq> [])"

section \<open>A deployment to run the handler on\<close>

text \<open>
  Five users, each with a token. Alice has a pregenerated wallet and a stored key share
  that decrypts. Bob has no wallet. Carol has a wallet and no key share. On Dave's key
  share the decryption throws; for Erin's it returns the empty string.
\<close>

definition demoUsers :: "(string \<times> string) list" where
  "demoUsers =
     [(''token-alice'', ''alice@example.com''), (''token-bob'', ''bob@example.com''),
      (''token-carol'', ''carol@example.com''), (''token-dave'', ''dave@example.com''),
      (''token-erin'', ''erin@example.com'')]"

definition demoKeyShares :: "(string \<times> string) list" where
  "demoKeyShares =
     [(''alice@example.com'', ''encrypted-share''), (''dave@example.com'', ''corrupt-share''),
      (''erin@example.com'', ''stale-share'')]"

definition demoCollaborators :: collaborators where
  "demoCollaborators =
     \<lparr> simulateVerifyToken =
         (\<lambda>token. Inr (case token of None \<Rightarrow> None
                        | Some t \<Rightarrow> map_option User (map_of demoUsers t))),
       hasPregenWallet =
         (\<lambda>email. Inr (email \<in> set [''alice@example.com'', ''carol@example.com'',
                                     ''dave@example.com'', ''erin@example.com''])),
       getKeyShareInDB = (\<lambda>email. Inr (map_of demoKeyShares email)),
       decrypt =
         (\<lambda>keyShare. if keyShare = ''corrupt-share'' then Inl (Thrown ''Malformed UTF-8 data'')
                      else if keyShare = ''encrypted-share'' then Inr ''share''
                      else Inr []),
       setUserShare = (\<lambda>share. Inr ()),
       createParaAccount = Inr (),
       createModularAccountAlchemyClient = (\<lambda>apiKey policyId. Inr ()),
       sendUserOperation = (\<lambda>uo. Inr ''{}'') \<rparr>"

definition demoEnv :: env where
  "demoEnv = \<lparr> PARA_API_KEY = Some ''para-key'', ALCHEMY_API_KEY = Some ''alchemy-key'',
               ALCHEMY_GAS_POLICY_ID = Some ''policy'' \<rparr>"

definition demoRequest :: "string option \<Rightarrow> string option \<Rightarrow> request" where
  \<comment> \<open>A request with the given Authorization header and the given \<open>email\<close> in its body.\<close>
  "demoRequest header email = \<lparr> authorization = header, json = Inr (RequestBody email) \<rparr>"

section \<open>The client widget \<open>SignMessageDemo\<close>\<close>

text \<open>
  The component state is a record; \<open>handleSubmit\<close> takes the state in which the form
  was submitted and returns the state after all its updates, with the effects it had
  outside the component, in order. The wallet SDK's signing function is a parameter: it
  throws (\<open>Inl\<close>) or gives a result object, whose properties may be absent.
\<close>

datatype statusType = Success | Error

datatype status = Status bool statusType string
  \<comment> \<open>The fields \<open>show\<close>, \<open>type\<close> and \<open>message\<close>.\<close>

type_synonym codeUnit = "16 word"

type_synonym jsString = "codeUnit list"

definition js :: "string \<Rightarrow> jsString" where
  \<comment> \<open>A string of code units below \<open>U+0100\<close> as a list of code units.\<close>
  "js s = map (\<lambda>c. of_nat (of_char c)) s"

record state =
  message :: jsString
  signature :: string
  isLoading :: bool
  status :: status

record signatureRes =
  pendingTransactionId :: "string option"
  transactionReviewUrl :: "string option"
  signatureField :: "string option"

datatype effect =
    PreventDefault
  | SignMessage string string
  | ConsoleError thrown

definition isWhiteSpace :: "codeUnit \<Rightarrow> bool" where
  \<comment> \<open>The 25 code units that \<open>String.prototype.trim\<close> removes: the white space of
      ECMAScript (TAB, VT, FF, the space separators, the byte order mark) and its line
      terminators (LF, CR, LS, PS).\<close>
  "isWhiteSpace c =
     (unat c \<in> set [0x9, 0xA, 0xB, 0xC, 0xD, 0x20, 0xA0, 0x1680,
                     0x2000, 0x2001, 0x2002, 0x2003, 0x2004, 0x2005, 0x2006, 0x2007, 0x2008,
                     0x2009, 0x200A, 0x2028, 0x2029, 0x202F, 0x205F, 0x3000, 0xFEFF])"

definition trim :: "jsString \<Rightarrow> jsString" where
  \<comment> \<open>\<open>s.trim()\<close>: white space and line terminators go from both ends.\<close>
  "trim s = rev (dropWhile isWhiteSpace (rev (dropWhile isWhiteSpace s)))"

fun utf8 :: "jsString \<Rightarrow> nat list" where
  \<comment> \<open>The bytes of \<open>Buffer.from(s)\<close>: the UTF-8 encoding of the string. A high
      surrogate followed by a low one is one code point of four bytes; a surrogate
      without its partner is written as \<open>U+FFFD\<close>.\<close>
  "utf8 [] = []"
| "utf8 (c # cs) =
     (let n = unat c in
      if n < 0x80 then n # utf8 cs
      else if n < 0x800 then [0xC0 + n div 64, 0x80 + n mod 64] @ utf8 cs
      else if 0xD800 \<le> n \<and> n < 0xDC00 then
        (case cs of
           [] \<Rightarrow> [0xEF, 0xBF, 0xBD]
         | d # ds \<Rightarrow>
             let m = unat d in
             if 0xDC00 \<le> m \<and> m < 0xE000 then
               (let cp = 0x10000 + (n - 0xD800) * 0x400 + (m - 0xDC00) in
                [0xF0 + cp div 0x40000, 0x80 + (cp div 0x1000) mod 64,
                 0x80 + (cp div 64) mod 64, 0x80 + cp mod 64] @ utf8 ds)
             else [0xEF, 0xBF, 0xBD] @ utf8 cs)
      else if 0xDC00 \<le> n \<and> n < 0xE000 then [0xEF, 0xBF, 0xBD] @ utf8 cs
      else [0xE0 + n div 0x1000, 0x80 + (n div 64) mod 64, 0x80 + n mod 64] @ utf8 cs)"

definition base64Char :: "nat \<Rightarrow> char" where
  "base64Char n =
     ''ABCDEFGHIJKLMNOPQRSTUVWXYZabcdefghijklmnopqrstuvwxyz0123456789+/'' ! (n mod 64)"

fun base64 :: "nat list \<Rightarrow> string" where
  \<comment> \<open>\<open>buf.toString("base64")\<close>.\<close>
  "base64 [] = []"
| "base64 [a] = [base64Char (a div 4), base64Char ((a mod 4) * 16), CHR ''='', CHR ''='']"
| "base64 [a, b] =
     [base64Char (a div 4), base64Char ((a mod 4) * 16 + b div 16),
      base64Char ((b mod 16) * 4), CHR ''='']"
| "base64 (a # b # c # rest) =
     [base64Char (a div 4), base64Char ((a mod 4) * 16 + b div 16),
      base64Char ((b mod 16) * 4 + c div 64), base64Char (c mod 64)] @ base64 rest"

definition handleSubmit_try ::
  "(string \<Rightarrow> string \<Rightarrow> thrown + signatureRes) \<Rightarrow> bool \<Rightarrow> string option \<Rightarrow> state
     \<Rightarrow> state \<times> effect list" where
  \<comment> \<open>The \<open>try\<close> block with its \<open>catch\<close>.\<close>
  "handleSubmit_try signMessage isConnected walletId st =
     (if \<not> isConnected
      then (st\<lparr>status := Status True Error ''Please connect your wallet to sign a message.''\<rparr>, [])
      else if \<not> truthy walletId
      then (st\<lparr>status := Status True Error ''No wallet ID found. Please reconnect your wallet.''\<rparr>, [])
      else
      let messageToSign = trim (message st);
          base64Message = base64 (utf8 messageToSign);
          called = [SignMessage (str walletId) base64Message] in
      case signMessage (str walletId) base64Message of
        Inl e \<Rightarrow>
          (st\<lparr>status := Status True Error ''Failed to sign message. Please try again.''\<rparr>,
           called @ [ConsoleError e])
      | Inr res \<Rightarrow>
      if pendingTransactionId res \<noteq> None \<or> transactionReviewUrl res \<noteq> None
      then (st\<lparr>status := Status True Error ''Message signing was denied.''\<rparr>, called)
      else
        (st\<lparr>signature := ''0x'' @ (case signatureField res of None \<Rightarrow> ''undefined'' | Some s \<Rightarrow> s),
            status := Status True Success ''Message signed successfully!''\<rparr>, called))"

definition handleSubmit ::
  "(string \<Rightarrow> string \<Rightarrow> thrown + signatureRes) \<Rightarrow> bool \<Rightarrow> string option \<Rightarrow> state
     \<Rightarrow> state \<times> effect list" where
  \<comment> \<open>\<open>e.preventDefault()\<close>, \<open>setIsLoading(true)\<close>, the \<open>try\<close> block, and
      \<open>setIsLoading(false)\<close> in \<open>finally\<close>.\<close>
  "handleSubmit signMessage isConnected walletId st =
     (case handleSubmit_try signMessage isConnected walletId (st\<lparr>isLoading := True\<rparr>) of
        (st', effects) \<Rightarrow> (st'\<lparr>isLoading := False\<rparr>, PreventDefault # effects))"

subsection \<open>A wallet SDK to run the widget on\<close>

definition initialState :: "jsString \<Rightarrow> state" where
  \<comment> \<open>The state of a freshly mounted component after the text was typed in.\<close>
  "initialState text =
     \<lparr> message = text, signature = [], isLoading = False, status = Status False Success [] \<rparr>"

definition demoSignMessage :: "string \<Rightarrow> string \<Rightarrow> thrown + signatureRes" where
  \<comment> \<open>A signer that sends one wallet to review, fails for another, and signs for the rest.\<close>
  "demoSignMessage walletId base64Message =
     (if walletId = ''wallet-review''
      then Inr \<lparr> pendingTransactionId = Some ''tx-1'',
                 transactionReviewUrl = Some ''https://review.example/tx-1'',
                 signatureField = None \<rparr>
      else if walletId = ''wallet-offline'' then Inl (Thrown ''network error'')
      else Inr \<lparr> pendingTransactionId = None, transactionReviewUrl = None,
                 signatureField = Some (''5161'' @ base64Message) \<rparr>)"

section \<open>Properties of the signature normalizer\<close>

subsection \<open>Digits, parsing and slicing\<close>

lemma hexDigitValue_range: "hexDigitValue c = Some d \<Longrightarrow> d < 16"
  by (auto simp: hexDigitValue_def Let_def split: if_splits)

lemma isHexDigit_not_space: "isHexDigit c \<Longrightarrow> \<not> isStrWhiteSpaceChar c"
  by (auto simp: isHexDigit_def hexDigitValue_def isStrWhiteSpaceChar_def Let_def split: if_splits)

lemma isHexDigit_not_special:
  assumes "isHexDigit c"
  shows "c \<noteq> CHR ''-''" "c \<noteq> CHR ''+''" "c \<noteq> CHR ''x''" "c \<noteq> CHR ''X''"
  using assms by (auto simp: isHexDigit_def hexDigitValue_def Let_def split: if_splits)

lemma parseInt16_two_digits:
  assumes "hexDigitValue a = Some da" "hexDigitValue b = Some db"
  shows "parseInt16 [a, b] = Some (int (16 * da + db))"
proof -
  have ha: "isHexDigit a" and hb: "isHexDigit b"
    using assms by (simp_all add: isHexDigit_def)
  show ?thesis
    using assms ha hb isHexDigit_not_space[OF ha] isHexDigit_not_special[OF ha]
      isHexDigit_not_special[OF hb]
    by (simp add: parseInt16_def mathInt_def Let_def)
qed

lemma digitChar_value: "d < 16 \<Longrightarrow> hexDigitValue (digitChar d) = Some d"
proof -
  assume "d < 16"
  then have "d \<in> set [0,1,2,3,4,5,6,7,8,9,10,11,12,13,14,15]"
    by (simp) arith
  then show ?thesis
    by (auto simp: digitChar_def hexDigitValue_def)
qed

lemma digitChar_lower: "isLowerHexDigit (digitChar d)"
proof -
  have "d mod 16 < length ''0123456789abcdef''" by simp
  then have "''0123456789abcdef'' ! (d mod 16) \<in> set ''0123456789abcdef''"
    by (rule nth_mem)
  then show ?thesis by (simp only: digitChar_def isLowerHexDigit_def)
qed

lemma hexDigits_two: "16 \<le> n \<Longrightarrow> n < 256 \<Longrightarrow> hexDigits n = [digitChar (n div 16), digitChar (n mod 16)]"
  by (subst hexDigits.simps) (simp add: less_mult_imp_div_less)

lemma adjustedV_low:
  assumes "0 \<le> v" "v < 27"
  shows "adjustedV v = [digitChar (nat (v + 27) div 16), digitChar (nat (v + 27) mod 16)]"
proof -
  have "16 \<le> nat (v + 27)" "nat (v + 27) < 256" using assms by auto
  from hexDigits_two[OF this] show ?thesis
    using assms by (simp add: adjustedV_def toString16_def padStart_def del: hexDigits.simps)
qed

lemma sliceFrom_last2: "2 \<le> length s \<Longrightarrow> sliceFrom (- 2) s = drop (length s - 2) s"
  by (simp add: sliceFrom_def Let_def nat_diff_distrib' max_def)

lemma slice_but_last2: "2 \<le> length s \<Longrightarrow> slice 0 (- 2) s = take (length s - 2) s"
  by (simp add: slice_def Let_def max_def nat_diff_distrib')

lemma length_two: "length xs = 2 \<Longrightarrow> \<exists>a b. xs = [a, b]"
  by (auto simp: length_Suc_conv numeral_2_eq_2)

lemma adjustedV_nat:
  assumes "n < 27"
  shows "adjustedV (int n) = [digitChar ((n + 27) div 16), digitChar ((n + 27) mod 16)]"
proof -
  have "0 \<le> int n" "int n < 27" using assms by simp_all
  from adjustedV_low[OF this] show ?thesis by (simp add: nat_add_distrib)
qed

lemma signature130_split:
  assumes "isSignature130 s"
  obtains a b where "s = take 128 s @ [a, b]" "isHexDigit a" "isHexDigit b"
proof -
  from assms have len: "length s = 130" and hex: "list_all isHexDigit s"
    by (simp_all add: isSignature130_def)
  have "length (drop 128 s) = 2" using len by simp
  then obtain a b where ab: "drop 128 s = [a, b]"
    using length_two by blast
  have s: "s = take 128 s @ [a, b]"
    using ab append_take_drop_id[of 128 s] by simp
  have "set [a, b] \<subseteq> set s" using ab set_drop_subset[of 128 s] by auto
  then have "isHexDigit a" "isHexDigit b" using hex by (auto simp: list_all_iff)
  with s show ?thesis using that by blast
qed

lemma lastByte_two_digits:
  assumes "hexDigitValue a = Some da" "hexDigitValue b = Some db"
  shows "lastByte (p @ [a, b]) = Some (int (16 * da + db))"
  using parseInt16_two_digits[OF assms]
  by (simp add: lastByte_def sliceFrom_last2)

lemma adjustSignature_two_digits:
  assumes "hexDigitValue a = Some da" "hexDigitValue b = Some db"
  shows "adjustSignature (p @ [a, b]) =
     (if 16 * da + db < 27
      then p @ [digitChar ((16 * da + db + 27) div 16), digitChar ((16 * da + db + 27) mod 16)]
      else p @ [a, b])"
proof -
  let ?v = "int (16 * da + db)"
  have lb: "lastByte (p @ [a, b]) = Some ?v" by (rule lastByte_two_digits[OF assms])
  have sl: "slice 0 (- 2) (p @ [a, b]) = p" by (simp add: slice_but_last2)
  show ?thesis
  proof (cases "16 * da + db < 27")
    case True
    from adjustedV_nat[OF True] True lb sl show ?thesis
      by (simp add: adjustSignature_def)
  next
    case False
    with lb show ?thesis by (simp add: adjustSignature_def)
  qed
qed

lemma lastByte_adjusted:
  assumes "n < 256"
  shows "lastByte (p @ [digitChar (n div 16), digitChar (n mod 16)]) = Some (int n)"
proof -
  have "n div 16 < 16" using assms by (simp add: less_mult_imp_div_less)
  then have a: "hexDigitValue (digitChar (n div 16)) = Some (n div 16)" by (rule digitChar_value)
  have b: "hexDigitValue (digitChar (n mod 16)) = Some (n mod 16)" by (rule digitChar_value) simp
  show ?thesis using lastByte_two_digits[OF a b, of p] by simp
qed

lemma lastByte_signature130:
  assumes "isSignature130 s"
  obtains v where "lastByte s = Some v" "0 \<le> v" "v < 256"
proof -
  from assms obtain a b where s: "s = take 128 s @ [a, b]" and "isHexDigit a" "isHexDigit b"
    by (rule signature130_split)
  then obtain da db where d: "hexDigitValue a = Some da" "hexDigitValue b = Some db"
    by (auto simp: isHexDigit_def)
  have "da < 16" "db < 16" using d by (auto dest: hexDigitValue_range)
  then have "int (16 * da + db) < 256" by simp
  moreover have "lastByte s = Some (int (16 * da + db))"
    using lastByte_two_digits[OF d, of "take 128 s"] s by simp
  ultimately show ?thesis using that by simp
qed

subsection \<open>The adjusted and the unadjusted case\<close>

text \<open>
  C1. For a signature of 130 hexadecimal characters whose trailing byte has a value
  below 27, the normalizer returns \<open>0x\<close>, the first 128 characters unchanged, and the
  trailing byte rewritten as two lowercase hexadecimal characters that denote the
  original value plus 27.
\<close>

theorem normalizer_low_v:
  assumes "isSignature130 s" and "lastByte s = Some v" and "v < 27"
  shows "normalizer s = ''0x'' @ take 128 s @ adjustedV v
       \<and> length (normalizer s) = 132
       \<and> take 128 (drop 2 (normalizer s)) = take 128 s
       \<and> list_all isLowerHexDigit (drop 130 (normalizer s))
       \<and> lastByte (normalizer s) = Some (v + 27)"
proof -
  from assms(1) obtain a b where s: "s = take 128 s @ [a, b]" and "isHexDigit a" "isHexDigit b"
    by (rule signature130_split)
  then obtain da db where d: "hexDigitValue a = Some da" "hexDigitValue b = Some db"
    by (auto simp: isHexDigit_def)
  define p where "p = take 128 s"
  define n where "n = 16 * da + db"
  have len: "length p = 128" using assms(1) by (simp add: p_def isSignature130_def)
  have sp: "s = p @ [a, b]" using s by (simp add: p_def)
  have "lastByte s = Some (int n)"
    unfolding sp n_def by (rule lastByte_two_digits[OF d])
  with assms(2,3) have v: "v = int n" and n: "n < 27" by simp_all
  have adj: "adjustSignature s = p @ [digitChar ((n + 27) div 16), digitChar ((n + 27) mod 16)]"
    unfolding sp using adjustSignature_two_digits[OF d, of p] n by (simp add: n_def)
  have av: "adjustedV v = [digitChar ((n + 27) div 16), digitChar ((n + 27) mod 16)]"
    unfolding v by (rule adjustedV_nat[OF n])
  have 1: "normalizer s = ''0x'' @ p @ adjustedV v"
    by (simp add: normalizer_def adj av)
  have 2: "length (normalizer s) = 132" by (simp add: 1 av len)
  have 3: "take 128 (drop 2 (normalizer s)) = p" by (simp add: 1 len)
  have 4: "list_all isLowerHexDigit (drop 130 (normalizer s))"
    by (simp add: 1 av len digitChar_lower)
  have "lastByte ((''0x'' @ p) @ [digitChar ((n + 27) div 16), digitChar ((n + 27) mod 16)])
      = Some (int (n + 27))"
    by (rule lastByte_adjusted) (use n in simp)
  then have "lastByte (''0x'' @ p @ [digitChar ((n + 27) div 16), digitChar ((n + 27) mod 16)])
      = Some (int n + 27)"
    by simp
  then have 5: "lastByte (normalizer s) = Some (v + 27)" by (simp only: 1 v adjustedV_nat[OF n])
  from 1 2 3 4 5 show ?thesis by (simp add: p_def)
qed

theorem normalizer_low_v_witness:
  "isSignature130 ''ffffffffffffffffffffffffffffffffffffffffffffffffffffffffffffffffffffffffffffffffffffffffffffffffffffffffffffffffffffffffffffffff00''
   \<and> lastByte ''ffffffffffffffffffffffffffffffffffffffffffffffffffffffffffffffffffffffffffffffffffffffffffffffffffffffffffffffffffffffffffffffff00'' = Some 0 \<and> (0::int) < 27
   \<and> normalizer ''ffffffffffffffffffffffffffffffffffffffffffffffffffffffffffffffffffffffffffffffffffffffffffffffffffffffffffffffffffffffffffffffff00'' = ''0xffffffffffffffffffffffffffffffffffffffffffffffffffffffffffffffffffffffffffffffffffffffffffffffffffffffffffffffffffffffffffffffff1b''
   \<and> lastByte (normalizer ''ffffffffffffffffffffffffffffffffffffffffffffffffffffffffffffffffffffffffffffffffffffffffffffffffffffffffffffffffffffffffffffffff00'') = Some 27"
proof -
  have h1: "isSignature130 ''ffffffffffffffffffffffffffffffffffffffffffffffffffffffffffffffffffffffffffffffffffffffffffffffffffffffffffffffffffffffffffffffff00''" by code_simp
  have h2: "lastByte ''ffffffffffffffffffffffffffffffffffffffffffffffffffffffffffffffffffffffffffffffffffffffffffffffffffffffffffffffffffffffffffffffff00'' = Some 0" by code_simp
  have h3: "(0::int) < 27" by simp
  have e: "adjustedV 0 = ''1b''" by code_simp
  note t = normalizer_low_v[OF h1 h2 h3]
  from t have c1: "normalizer ''ffffffffffffffffffffffffffffffffffffffffffffffffffffffffffffffffffffffffffffffffffffffffffffffffffffffffffffffffffffffffffffffff00'' = ''0x'' @ take 128 ''ffffffffffffffffffffffffffffffffffffffffffffffffffffffffffffffffffffffffffffffffffffffffffffffffffffffffffffffffffffffffffffffff00'' @ adjustedV 0"
    by (rule conjunct1)
  from t have c5: "lastByte (normalizer ''ffffffffffffffffffffffffffffffffffffffffffffffffffffffffffffffffffffffffffffffffffffffffffffffffffffffffffffffffffffffffffffffff00'') = Some (0 + 27)"
    by blast
  have "normalizer ''ffffffffffffffffffffffffffffffffffffffffffffffffffffffffffffffffffffffffffffffffffffffffffffffffffffffffffffffffffffffffffffffff00'' = ''0xffffffffffffffffffffffffffffffffffffffffffffffffffffffffffffffffffffffffffffffffffffffffffffffffffffffffffffffffffffffffffffffff1b''"
    by (simp only: c1 e) simp
  with c5 h1 h2 show ?thesis by simp
qed

text \<open>
  C2. For a signature of 130 hexadecimal characters whose trailing byte has a value of
  at least 27, the normalizer returns the input unchanged behind the prefix \<open>0x\<close>;
  such an input never carries that prefix itself.
\<close>

theorem normalizer_high_v:
  assumes "isSignature130 s" and "lastByte s = Some v" and "27 \<le> v"
  shows "normalizer s = ''0x'' @ s \<and> take 2 s \<noteq> ''0x''"
proof -
  have "adjustSignature s = s" using assms(2,3) by (simp add: adjustSignature_def)
  then have 1: "normalizer s = ''0x'' @ s" by (simp add: normalizer_def)
  from assms(1) have "length s = 130" "list_all isHexDigit s" by (simp_all add: isSignature130_def)
  then obtain c cs where "s = c # cs" "isHexDigit c" "list_all isHexDigit cs" "length cs = 129"
    by (cases s) auto
  then obtain c' cs' where "cs = c' # cs'" "isHexDigit c'" by (cases cs) auto
  with \<open>s = c # cs\<close> have "take 2 s \<noteq> ''0x''"
    using isHexDigit_not_special(3)[of c'] by auto
  with 1 show ?thesis by simp
qed

theorem normalizer_high_v_witness:
  "isSignature130 ''ffffffffffffffffffffffffffffffffffffffffffffffffffffffffffffffffffffffffffffffffffffffffffffffffffffffffffffffffffffffffffffffff1b'' \<and> lastByte ''ffffffffffffffffffffffffffffffffffffffffffffffffffffffffffffffffffffffffffffffffffffffffffffffffffffffffffffffffffffffffffffffff1b'' = Some 27 \<and> (27::int) \<le> 27
   \<and> normalizer ''ffffffffffffffffffffffffffffffffffffffffffffffffffffffffffffffffffffffffffffffffffffffffffffffffffffffffffffffffffffffffffffffff1b'' = ''0xffffffffffffffffffffffffffffffffffffffffffffffffffffffffffffffffffffffffffffffffffffffffffffffffffffffffffffffffffffffffffffffff1b''"
proof -
  have h1: "isSignature130 ''ffffffffffffffffffffffffffffffffffffffffffffffffffffffffffffffffffffffffffffffffffffffffffffffffffffffffffffffffffffffffffffffff1b''" by code_simp
  have h2: "lastByte ''ffffffffffffffffffffffffffffffffffffffffffffffffffffffffffffffffffffffffffffffffffffffffffffffffffffffffffffffffffffffffffffffff1b'' = Some 27" by code_simp
  have h3: "(27::int) \<le> 27" by simp
  from normalizer_high_v[OF h1 h2 h3] h1 h2 show ?thesis by simp
qed

lemma adjustSignature_fixed: "lastByte t = Some v \<Longrightarrow> 27 \<le> v \<Longrightarrow> adjustSignature t = t"
  by (simp add: adjustSignature_def)

lemma adjustSignature_shape:
  assumes "isSignature130 s"
  obtains a b da db where "adjustSignature s = take 128 s @ [a, b]"
    "hexDigitValue a = Some da" "hexDigitValue b = Some db" "27 \<le> 16 * da + db"
proof -
  from assms obtain a b where s: "s = take 128 s @ [a, b]" and "isHexDigit a" "isHexDigit b"
    by (rule signature130_split)
  then obtain da db where d: "hexDigitValue a = Some da" "hexDigitValue b = Some db"
    by (auto simp: isHexDigit_def)
  define n where "n = 16 * da + db"
  have "da < 16" "db < 16" using d by (auto dest: hexDigitValue_range)
  then have n256: "n < 256" by (simp add: n_def)
  have adj: "adjustSignature (take 128 s @ [a, b]) =
     (if n < 27 then take 128 s @ [digitChar ((n + 27) div 16), digitChar ((n + 27) mod 16)]
      else take 128 s @ [a, b])"
    using adjustSignature_two_digits[OF d, of "take 128 s"] by (simp add: n_def)
  show ?thesis
  proof (cases "n < 27")
    case True
    have "(n + 27) div 16 < 16" using True by simp
    then have 1: "hexDigitValue (digitChar ((n + 27) div 16)) = Some ((n + 27) div 16)"
      by (rule digitChar_value)
    have 2: "hexDigitValue (digitChar ((n + 27) mod 16)) = Some ((n + 27) mod 16)"
      by (rule digitChar_value) simp
    have 3: "27 \<le> 16 * ((n + 27) div 16) + (n + 27) mod 16" by simp
    have "adjustSignature s = take 128 s @ [digitChar ((n + 27) div 16), digitChar ((n + 27) mod 16)]"
      using adj True s by simp
    from that[OF this 1 2 3] show ?thesis .
  next
    case False
    then have "adjustSignature s = take 128 s @ [a, b]" using adj s by simp
    from that[OF this d] False show ?thesis by (simp add: n_def)
  qed
qed

lemma take_hex: "list_all isHexDigit s \<Longrightarrow> list_all isHexDigit (take k s)"
  by (auto simp: list_all_iff dest: in_set_takeD)

subsection \<open>Shape of the output\<close>

lemma adjustSignature_append:
  assumes "isSignature130 s"
  shows "adjustSignature (q @ s) = q @ adjustSignature s"
proof -
  from assms obtain a b where s: "s = take 128 s @ [a, b]" and "isHexDigit a" "isHexDigit b"
    by (rule signature130_split)
  then obtain da db where d: "hexDigitValue a = Some da" "hexDigitValue b = Some db"
    by (auto simp: isHexDigit_def)
  have "adjustSignature ((q @ take 128 s) @ [a, b]) = q @ adjustSignature (take 128 s @ [a, b])"
    unfolding adjustSignature_two_digits[OF d] by simp
  with s show ?thesis by simp
qed

lemma output_shape_unprefixed:
  assumes "isSignature130 s"
  shows "take 2 (normalizer s) = ''0x''
       \<and> length (normalizer s) = length s + 2
       \<and> take (length s - 2) (drop 2 (normalizer s)) = take (length s - 2) s
       \<and> list_all isHexDigit (drop (length s) (normalizer s))
       \<and> isSignature130 (drop 2 (normalizer s))"
proof -
  from assms have len: "length s = 130" and hex: "list_all isHexDigit s"
    by (simp_all add: isSignature130_def)
  from assms obtain a b da db where adj: "adjustSignature s = take 128 s @ [a, b]"
    and d: "hexDigitValue a = Some da" "hexDigitValue b = Some db"
    by (rule adjustSignature_shape)
  have n: "normalizer s = ''0x'' @ take 128 s @ [a, b]" by (simp add: normalizer_def adj)
  have ab: "isHexDigit a" "isHexDigit b" using d by (simp_all add: isHexDigit_def)
  have "list_all isHexDigit (take 128 s @ [a, b])"
    using take_hex[OF hex, of 128] ab by simp
  then have 5: "isSignature130 (drop 2 (normalizer s))"
    using len by (simp add: n isSignature130_def)
  have 4: "list_all isHexDigit (drop (length s) (normalizer s))"
    using ab len by (simp add: n)
  from 4 5 show ?thesis using len by (simp add: n)
qed

lemma output_shape_prefixed:
  assumes "isPrefixedSignature s"
  shows "take 2 (normalizer s) = ''0x''
       \<and> length (normalizer s) = length s + 2
       \<and> take (length s - 2) (drop 2 (normalizer s)) = take (length s - 2) s
       \<and> list_all isHexDigit (drop (length s) (normalizer s))
       \<and> isPrefixedSignature (drop 2 (normalizer s))"
proof -
  define t where "t = drop 2 s"
  from assms have t: "isSignature130 t" and "take 2 s = ''0x''"
    by (simp_all add: isPrefixedSignature_def t_def)
  then have s: "s = ''0x'' @ t"
    unfolding t_def by (metis append_take_drop_id)
  from t have len: "length t = 130" and hex: "list_all isHexDigit t"
    by (simp_all add: isSignature130_def)
  from t obtain a b da db where adj: "adjustSignature t = take 128 t @ [a, b]"
    and d: "hexDigitValue a = Some da" "hexDigitValue b = Some db"
    by (rule adjustSignature_shape)
  have n: "normalizer s = ''0x0x'' @ take 128 t @ [a, b]"
    unfolding s normalizer_def adjustSignature_append[OF t] adj by simp
  have ab: "isHexDigit a" "isHexDigit b" using d by (simp_all add: isHexDigit_def)
  have "list_all isHexDigit (take 128 t @ [a, b])"
    using take_hex[OF hex, of 128] ab by simp
  then have 5: "isPrefixedSignature (drop 2 (normalizer s))"
    using len by (simp add: n isPrefixedSignature_def isSignature130_def)
  have ls: "length s = 132" by (subst s) (simp add: len)
  have "take 130 (''0x'' @ t) = ''0x'' @ take 128 t" by simp
  then have ts: "take 130 s = ''0x'' @ take 128 t" using s by simp
  have 4: "list_all isHexDigit (drop (length s) (normalizer s))"
    using ab len by (simp add: n ls)
  have 3: "take (length s - 2) (drop 2 (normalizer s)) = take (length s - 2) s"
    using len by (simp add: n ls ts)
  from 3 4 5 show ?thesis using len by (simp add: n ls)
qed

text \<open>
  Against C3 as stated: an input that carries the prefix \<open>0x\<close> before its 130
  hexadecimal characters gets a second prefix. The output is two characters longer than
  the input, what follows its prefix is not a string of hexadecimal digits, and behind
  the prefixes the output and the input have different lengths.
\<close>

theorem normalizer_prefixed_counterexample:
  "isPrefixedSignature ''0xffffffffffffffffffffffffffffffffffffffffffffffffffffffffffffffffffffffffffffffffffffffffffffffffffffffffffffffffffffffffffffffff1b''
   \<and> normalizer ''0xffffffffffffffffffffffffffffffffffffffffffffffffffffffffffffffffffffffffffffffffffffffffffffffffffffffffffffffffffffffffffffffff1b'' = ''0x0xffffffffffffffffffffffffffffffffffffffffffffffffffffffffffffffffffffffffffffffffffffffffffffffffffffffffffffffffffffffffffffffff1b''
   \<and> length (normalizer ''0xffffffffffffffffffffffffffffffffffffffffffffffffffffffffffffffffffffffffffffffffffffffffffffffffffffffffffffffffffffffffffffffff1b'') \<noteq> length ''0xffffffffffffffffffffffffffffffffffffffffffffffffffffffffffffffffffffffffffffffffffffffffffffffffffffffffffffffffffffffffffffffff1b''
   \<and> \<not> list_all isHexDigit (drop 2 (normalizer ''0xffffffffffffffffffffffffffffffffffffffffffffffffffffffffffffffffffffffffffffffffffffffffffffffffffffffffffffffffffffffffffffffff1b''))
   \<and> length (drop 2 (normalizer ''0xffffffffffffffffffffffffffffffffffffffffffffffffffffffffffffffffffffffffffffffffffffffffffffffffffffffffffffffffffffffffffffffff1b'')) \<noteq> length (drop 2 ''0xffffffffffffffffffffffffffffffffffffffffffffffffffffffffffffffffffffffffffffffffffffffffffffffffffffffffffffffffffffffffffffffff1b'')"
  by code_simp

text \<open>
  C3 (amended). For an input of either shape the specification admits, 130 hexadecimal
  characters with or without the prefix \<open>0x\<close> before them, the output is \<open>0x\<close>
  followed by a string of the input's length that agrees with the input on all but the
  last two characters, which are hexadecimal digits: the output is two characters longer
  than the input and differs from it, behind the added prefix, in the last byte at most.
  For an input without the prefix, what follows \<open>0x\<close> in the output is again 130
  hexadecimal characters. For an input with the prefix, the output carries the prefix
  twice.
\<close>

theorem normalizer_output_shape:
  assumes "isSignature130 s \<or> isPrefixedSignature s"
  shows "take 2 (normalizer s) = ''0x''
       \<and> length (normalizer s) = length s + 2
       \<and> take (length s - 2) (drop 2 (normalizer s)) = take (length s - 2) s
       \<and> list_all isHexDigit (drop (length s) (normalizer s))
       \<and> (isSignature130 s \<longrightarrow> isSignature130 (drop 2 (normalizer s)))
       \<and> (isPrefixedSignature s \<longrightarrow> isPrefixedSignature (drop 2 (normalizer s)))"
proof -
  have excl: "\<not> (isSignature130 s \<and> isPrefixedSignature s)"
    by (auto simp: isSignature130_def isPrefixedSignature_def)
  from assms show ?thesis
  proof
    assume a: "isSignature130 s"
    with excl have "\<not> isPrefixedSignature s" by blast
    with output_shape_unprefixed[OF a] show ?thesis by blast
  next
    assume a: "isPrefixedSignature s"
    with excl have "\<not> isSignature130 s" by blast
    with output_shape_prefixed[OF a] show ?thesis by blast
  qed
qed

theorem normalizer_output_shape_witness:
  "isSignature130 ''ffffffffffffffffffffffffffffffffffffffffffffffffffffffffffffffffffffffffffffffffffffffffffffffffffffffffffffffffffffffffffffffff00''
   \<and> length (normalizer ''ffffffffffffffffffffffffffffffffffffffffffffffffffffffffffffffffffffffffffffffffffffffffffffffffffffffffffffffffffffffffffffffff00'') = 132
   \<and> isSignature130 (drop 2 (normalizer ''ffffffffffffffffffffffffffffffffffffffffffffffffffffffffffffffffffffffffffffffffffffffffffffffffffffffffffffffffffffffffffffffff00''))
   \<and> isPrefixedSignature ''0xffffffffffffffffffffffffffffffffffffffffffffffffffffffffffffffffffffffffffffffffffffffffffffffffffffffffffffffffffffffffffffffff00''
   \<and> length (normalizer ''0xffffffffffffffffffffffffffffffffffffffffffffffffffffffffffffffffffffffffffffffffffffffffffffffffffffffffffffffffffffffffffffffff00'') = 134
   \<and> isPrefixedSignature (drop 2 (normalizer ''0xffffffffffffffffffffffffffffffffffffffffffffffffffffffffffffffffffffffffffffffffffffffffffffffffffffffffffffffffffffffffffffffff00''))"
proof -
  have h: "isSignature130 ''ffffffffffffffffffffffffffffffffffffffffffffffffffffffffffffffffffffffffffffffffffffffffffffffffffffffffffffffffffffffffffffffff00''" by code_simp
  have p: "isPrefixedSignature ''0xffffffffffffffffffffffffffffffffffffffffffffffffffffffffffffffffffffffffffffffffffffffffffffffffffffffffffffffffffffffffffffffff00''" by code_simp
  have 1: "isSignature130 ''ffffffffffffffffffffffffffffffffffffffffffffffffffffffffffffffffffffffffffffffffffffffffffffffffffffffffffffffffffffffffffffffff00'' \<or> isPrefixedSignature ''ffffffffffffffffffffffffffffffffffffffffffffffffffffffffffffffffffffffffffffffffffffffffffffffffffffffffffffffffffffffffffffffff00''" using h by simp
  have 2: "isSignature130 ''0xffffffffffffffffffffffffffffffffffffffffffffffffffffffffffffffffffffffffffffffffffffffffffffffffffffffffffffffffffffffffffffffff00'' \<or> isPrefixedSignature ''0xffffffffffffffffffffffffffffffffffffffffffffffffffffffffffffffffffffffffffffffffffffffffffffffffffffffffffffffffffffffffffffffff00''" using p by simp
  from normalizer_output_shape[OF 1] h
  have a: "length (normalizer ''ffffffffffffffffffffffffffffffffffffffffffffffffffffffffffffffffffffffffffffffffffffffffffffffffffffffffffffffffffffffffffffffff00'') = 132 \<and> isSignature130 (drop 2 (normalizer ''ffffffffffffffffffffffffffffffffffffffffffffffffffffffffffffffffffffffffffffffffffffffffffffffffffffffffffffffffffffffffffffffff00''))"
    by simp
  from normalizer_output_shape[OF 2] p
  have b: "length (normalizer ''0xffffffffffffffffffffffffffffffffffffffffffffffffffffffffffffffffffffffffffffffffffffffffffffffffffffffffffffffffffffffffffffffff00'') = 134
      \<and> isPrefixedSignature (drop 2 (normalizer ''0xffffffffffffffffffffffffffffffffffffffffffffffffffffffffffffffffffffffffffffffffffffffffffffffffffffffffffffffffffffffffffffffff00''))"
    by simp
  from a b h p show ?thesis by blast
qed

subsection \<open>Applying the normalizer twice\<close>

text \<open>
  Against C4 as stated: fed its own output, the normalizer prepends a second prefix;
  as a function on strings it is not idempotent.
\<close>

theorem normalizer_twice_counterexample:
  "isSignature130 ''ffffffffffffffffffffffffffffffffffffffffffffffffffffffffffffffffffffffffffffffffffffffffffffffffffffffffffffffffffffffffffffffff00''
   \<and> normalizer (normalizer ''ffffffffffffffffffffffffffffffffffffffffffffffffffffffffffffffffffffffffffffffffffffffffffffffffffffffffffffffffffffffffffffffff00'') \<noteq> normalizer ''ffffffffffffffffffffffffffffffffffffffffffffffffffffffffffffffffffffffffffffffffffffffffffffffffffffffffffffffffffffffffffffffff00''"
  by code_simp

text \<open>
  C4 (amended). For a signature of 130 hexadecimal characters, the adjustment of the
  recovery byte is idempotent: after one application the trailing byte has a value of
  at least 27, so a second application changes nothing, also on the prefixed output of
  the normalizer. The normalizer as a whole prepends \<open>0x\<close> on every application, so
  applied to its own output it returns that output behind one more prefix.
\<close>

theorem adjustSignature_idempotent:
  assumes "isSignature130 s"
  shows "adjustSignature (adjustSignature s) = adjustSignature s
       \<and> (case lastByte (adjustSignature s) of None \<Rightarrow> False | Some v \<Rightarrow> 27 \<le> v)
       \<and> adjustSignature (normalizer s) = normalizer s
       \<and> normalizer (normalizer s) = ''0x'' @ normalizer s"
proof -
  from assms obtain a b da db where adj: "adjustSignature s = take 128 s @ [a, b]"
    and d: "hexDigitValue a = Some da" "hexDigitValue b = Some db"
    and v: "27 \<le> 16 * da + db"
    by (rule adjustSignature_shape)
  have lb: "lastByte (q @ adjustSignature s) = Some (int (16 * da + db))" for q
    using lastByte_two_digits[OF d, of "q @ take 128 s"] by (simp add: adj)
  have v': "27 \<le> int (16 * da + db)" using v by simp
  have fixd: "adjustSignature (q @ adjustSignature s) = q @ adjustSignature s" for q
    using lb[of q] v' by (rule adjustSignature_fixed)
  have 1: "adjustSignature (adjustSignature s) = adjustSignature s"
    using fixd[of "[]"] by simp
  have 2: "case lastByte (adjustSignature s) of None \<Rightarrow> False | Some v \<Rightarrow> 27 \<le> v"
    using lb[of "[]"] v by simp
  have 3: "adjustSignature (normalizer s) = normalizer s"
    unfolding normalizer_def by (rule fixd)
  have 4: "normalizer (normalizer s) = ''0x'' @ normalizer s"
    using 3 by (simp add: normalizer_def)
  from 1 2 3 4 show ?thesis by simp
qed

theorem adjustSignature_idempotent_witness:
  "isSignature130 ''ffffffffffffffffffffffffffffffffffffffffffffffffffffffffffffffffffffffffffffffffffffffffffffffffffffffffffffffffffffffffffffffff00''
   \<and> adjustSignature ''ffffffffffffffffffffffffffffffffffffffffffffffffffffffffffffffffffffffffffffffffffffffffffffffffffffffffffffffffffffffffffffffff00'' = ''ffffffffffffffffffffffffffffffffffffffffffffffffffffffffffffffffffffffffffffffffffffffffffffffffffffffffffffffffffffffffffffffff1b''
   \<and> adjustSignature (adjustSignature ''ffffffffffffffffffffffffffffffffffffffffffffffffffffffffffffffffffffffffffffffffffffffffffffffffffffffffffffffffffffffffffffffff00'') = ''ffffffffffffffffffffffffffffffffffffffffffffffffffffffffffffffffffffffffffffffffffffffffffffffffffffffffffffffffffffffffffffffff1b''
   \<and> normalizer (normalizer ''ffffffffffffffffffffffffffffffffffffffffffffffffffffffffffffffffffffffffffffffffffffffffffffffffffffffffffffffffffffffffffffffff00'') = ''0x0xffffffffffffffffffffffffffffffffffffffffffffffffffffffffffffffffffffffffffffffffffffffffffffffffffffffffffffffffffffffffffffffff1b''"
proof -
  have h: "isSignature130 ''ffffffffffffffffffffffffffffffffffffffffffffffffffffffffffffffffffffffffffffffffffffffffffffffffffffffffffffffffffffffffffffffff00''" by code_simp
  have e: "adjustSignature ''ffffffffffffffffffffffffffffffffffffffffffffffffffffffffffffffffffffffffffffffffffffffffffffffffffffffffffffffffffffffffffffffff00'' = ''ffffffffffffffffffffffffffffffffffffffffffffffffffffffffffffffffffffffffffffffffffffffffffffffffffffffffffffffffffffffffffffffff1b''" by code_simp
  have n: "normalizer ''ffffffffffffffffffffffffffffffffffffffffffffffffffffffffffffffffffffffffffffffffffffffffffffffffffffffffffffffffffffffffffffffff00'' = ''0xffffffffffffffffffffffffffffffffffffffffffffffffffffffffffffffffffffffffffffffffffffffffffffffffffffffffffffffffffffffffffffffff1b''" by code_simp
  from adjustSignature_idempotent[OF h] h e n show ?thesis by simp
qed

section \<open>Properties of the request handler\<close>

subsection \<open>One lemma for each branch\<close>

lemma startsWith_nonempty: "startsWith h ''Bearer '' \<Longrightarrow> h \<noteq> []"
  by (auto simp: startsWith_def)

lemma signWithAlchemy_no_bearer:
  assumes "case authorization req of None \<Rightarrow> True | Some h \<Rightarrow> \<not> startsWith h ''Bearer ''"
  shows "signWithAlchemy c env req = (Returned (Response ''Unauthorized'' 401), [])"
  using assms
  by (cases "authorization req") (simp_all add: signWithAlchemy_def truthy_def str_def)

lemma signWithAlchemy_bearer:
  assumes "authorization req = Some h" and "startsWith h ''Bearer ''"
  shows "signWithAlchemy c env req =
     (case simulateVerifyToken c (tokenOf h) of
        Inl e \<Rightarrow> (Rejected e, [SimulateVerifyToken (tokenOf h)])
      | Inr None \<Rightarrow> (Returned (Response ''Unauthorized'' 401),
                      [SimulateVerifyToken (tokenOf h)])
      | Inr (Some user) \<Rightarrow>
          signWithAlchemy_body c env req user [SimulateVerifyToken (tokenOf h)])"
  using assms startsWith_nonempty[OF assms(2)]
  by (simp add: signWithAlchemy_def truthy_def str_def Let_def split: sum.splits option.splits)

lemma signWithAlchemy_body_no_email:
  assumes "json req = Inr (RequestBody email)" and "\<not> truthy email"
  shows "signWithAlchemy_body c env req user t =
     (Returned (Response ''Email is required'' 400), t @ [ReqJson])"
  using assms by (simp add: signWithAlchemy_body_def Let_def)

lemma signWithAlchemy_body_mismatch:
  assumes "json req = Inr (RequestBody (Some email))" and "email \<noteq> []"
    and "user_email user \<noteq> email"
  shows "signWithAlchemy_body c env req user t =
     (Returned (Response ''Forbidden'' 403), t @ [ReqJson])"
  using assms by (simp add: signWithAlchemy_body_def Let_def truthy_def)

lemma signWithAlchemy_body_match:
  assumes "json req = Inr (RequestBody (Some email))" and "email \<noteq> []"
    and "user_email user = email"
  shows "signWithAlchemy_body c env req user t = signWithAlchemy_env c env email (t @ [ReqJson])"
  using assms by (simp add: signWithAlchemy_body_def Let_def truthy_def str_def)

lemma signWithAlchemy_env_no_para:
  assumes "\<not> truthy (PARA_API_KEY env)"
  shows "signWithAlchemy_env c env email t = (Returned (Response ''PARA_API_KEY not set'' 500), t)"
  using assms by (simp add: signWithAlchemy_env_def Let_def)

lemma signWithAlchemy_env_no_alchemy:
  assumes "truthy (PARA_API_KEY env)"
    and "\<not> truthy (ALCHEMY_API_KEY env) \<or> \<not> truthy (ALCHEMY_GAS_POLICY_ID env)"
  shows "signWithAlchemy_env c env email t =
     (Returned (Response ''ALCHEMY_API_KEY or ALCHEMY_GAS_POLICY_ID not set'' 500), t)"
  using assms by (auto simp add: signWithAlchemy_env_def Let_def)

lemma signWithAlchemy_env_set:
  assumes "PARA_API_KEY env = Some pk" "pk \<noteq> []" "ALCHEMY_API_KEY env = Some ak" "ak \<noteq> []"
    "ALCHEMY_GAS_POLICY_ID env = Some gp" "gp \<noteq> []"
  shows "signWithAlchemy_env c env email t = signWithAlchemy_wallet c pk ak gp email t"
  using assms by (simp add: signWithAlchemy_env_def Let_def truthy_def str_def)

lemma signWithAlchemy_wallet_missing:
  assumes "hasPregenWallet c email = Inr False"
  shows "signWithAlchemy_wallet c pk ak gp email t =
     (Returned (Response ''Wallet does not exist'' 400),
      t @ [NewParaServer pk, HasPregenWallet email])"
  using assms by (simp add: signWithAlchemy_wallet_def Let_def)

lemma signWithAlchemy_wallet_exists:
  assumes "hasPregenWallet c email = Inr True"
  shows "signWithAlchemy_wallet c pk ak gp email t =
     signWithAlchemy_keyShare c ak gp email (t @ [NewParaServer pk, HasPregenWallet email])"
  using assms by (simp add: signWithAlchemy_wallet_def Let_def)

lemma signWithAlchemy_keyShare_missing:
  assumes "getKeyShareInDB c email = Inr keyShare" and "\<not> truthy keyShare"
  shows "signWithAlchemy_keyShare c ak gp email t =
     (Returned (Response ''Key share does not exist'' 400), t @ [GetKeyShareInDB email])"
  using assms by (simp add: signWithAlchemy_keyShare_def Let_def)

lemma signWithAlchemy_keyShare_decrypted:
  assumes "getKeyShareInDB c email = Inr (Some keyShare)" and "keyShare \<noteq> []"
    and "decrypt c keyShare = Inr decrypted"
  shows "signWithAlchemy_keyShare c ak gp email t =
     signWithAlchemy_submit c ak gp decrypted (t @ [GetKeyShareInDB email, Decrypt keyShare])"
  using assms by (simp add: signWithAlchemy_keyShare_def Let_def truthy_def str_def)

lemma signWithAlchemy_keyShare_thrown:
  assumes "getKeyShareInDB c email = Inr (Some keyShare)" and "keyShare \<noteq> []"
    and "decrypt c keyShare = Inl e"
  shows "signWithAlchemy_keyShare c ak gp email t =
     (Rejected e, t @ [GetKeyShareInDB email, Decrypt keyShare])"
  using assms by (simp add: signWithAlchemy_keyShare_def Let_def truthy_def str_def)

lemma signWithAlchemy_submit_first:
  "take (Suc (length t)) (snd (signWithAlchemy_submit c ak gp decrypted t)) =
     t @ [SetUserShare decrypted]"
  by (simp add: signWithAlchemy_submit_def Let_def split: sum.splits)

lemma splitOn_nonempty: "splitOn sep s \<noteq> []"
  by (induction s) (auto split: list.splits)

lemma tokenOf_bearer:
  assumes "startsWith h ''Bearer ''"
  shows "tokenOf h = Some (hd (splitOn (CHR '' '') (drop 7 h)))"
proof -
  have len: "length ''Bearer '' = (7::nat)" by simp
  have "take 7 h = ''Bearer ''" using assms unfolding startsWith_def len .
  then have h: "h = ''Bearer '' @ drop 7 h" by (metis append_take_drop_id)
  obtain w ws where w: "splitOn (CHR '' '') (drop 7 h) = w # ws"
    using splitOn_nonempty[of "CHR '' ''" "drop 7 h"] by (cases "splitOn (CHR '' '') (drop 7 h)") auto
  have "splitOn (CHR '' '') (''Bearer '' @ drop 7 h) = ''Bearer'' # w # ws"
    by (simp add: w)
  then have "tokenOf (''Bearer '' @ drop 7 h) = Some w"
    by (simp add: tokenOf_def at_def)
  with h w show ?thesis by simp
qed

lemmas demo_defs = demoCollaborators_def demoEnv_def demoRequest_def demoUsers_def
  demoKeyShares_def

subsection \<open>Rejection at the first gate\<close>

text \<open>
  C6. A request whose Authorization header is missing, or does not start with
  \<open>Bearer \<close>, is answered with 401, and the handler has called no collaborator by
  then: no token verification, no key share lookup, no decryption, no wallet service
  and no relayer.
\<close>

theorem missing_bearer_unauthorized:
  assumes "case authorization req of None \<Rightarrow> True | Some h \<Rightarrow> \<not> startsWith h ''Bearer ''"
  shows "signWithAlchemy c env req = (Returned (Response ''Unauthorized'' 401), [])"
  using assms by (rule signWithAlchemy_no_bearer)

theorem missing_bearer_unauthorized_witness:
  "signWithAlchemy demoCollaborators demoEnv (demoRequest None (Some ''alice@example.com''))
     = (Returned (Response ''Unauthorized'' 401), [])
   \<and> signWithAlchemy demoCollaborators demoEnv
       (demoRequest (Some ''Basic token-alice'') (Some ''alice@example.com''))
     = (Returned (Response ''Unauthorized'' 401), [])"
proof -
  have 1: "case authorization (demoRequest None (Some ''alice@example.com'')) of
             None \<Rightarrow> True | Some h \<Rightarrow> \<not> startsWith h ''Bearer ''"
    by (simp add: demoRequest_def)
  have 2: "case authorization (demoRequest (Some ''Basic token-alice'') (Some ''alice@example.com'')) of
             None \<Rightarrow> True | Some h \<Rightarrow> \<not> startsWith h ''Bearer ''"
    by (simp add: demoRequest_def startsWith_def)
  from missing_bearer_unauthorized[OF 1] missing_bearer_unauthorized[OF 2]
  show ?thesis by simp
qed

subsection \<open>A valid token used for another email\<close>

text \<open>
  Against C7 as stated: an email that is present in the body and empty differs from
  the email of the verified user, and the handler answers it with 400, not with 403.
\<close>

theorem empty_email_counterexample:
  "simulateVerifyToken demoCollaborators (Some ''token-alice'')
     = Inr (Some (User ''alice@example.com''))
   \<and> user_email (User ''alice@example.com'') \<noteq> ''''
   \<and> signWithAlchemy demoCollaborators demoEnv (demoRequest (Some ''Bearer token-alice'') (Some ''''))
     = (Returned (Response ''Email is required'' 400),
        [SimulateVerifyToken (Some ''token-alice''), ReqJson])"
  by code_simp

text \<open>
  C7 (amended). A request with a valid token whose body carries a non-empty email that
  differs from the email of the verified user is answered with 403, whatever wallet and
  key share exist; the handler has only verified the token and read the body by then,
  so the wallet and key share lookups are not reached.
\<close>

theorem mismatched_email_forbidden:
  assumes "authorization req = Some h" and "startsWith h ''Bearer ''"
    and "simulateVerifyToken c (tokenOf h) = Inr (Some user)"
    and "json req = Inr (RequestBody (Some email))" and "email \<noteq> []"
    and "user_email user \<noteq> email"
  shows "signWithAlchemy c env req =
     (Returned (Response ''Forbidden'' 403), [SimulateVerifyToken (tokenOf h), ReqJson])"
  using signWithAlchemy_bearer[OF assms(1,2), of c env]
    signWithAlchemy_body_mismatch[OF assms(4,5,6), of c env "[SimulateVerifyToken (tokenOf h)]"]
    assms(3)
  by simp

theorem mismatched_email_forbidden_witness:
  "hasPregenWallet demoCollaborators ''alice@example.com'' = Inr True
   \<and> getKeyShareInDB demoCollaborators ''alice@example.com'' = Inr (Some ''encrypted-share'')
   \<and> signWithAlchemy demoCollaborators demoEnv
       (demoRequest (Some ''Bearer token-alice'') (Some ''erin@example.com''))
     = (Returned (Response ''Forbidden'' 403),
        [SimulateVerifyToken (Some ''token-alice''), ReqJson])"
proof -
  let ?req = "demoRequest (Some ''Bearer token-alice'') (Some ''erin@example.com'')"
  have t: "tokenOf ''Bearer token-alice'' = Some ''token-alice''" by code_simp
  have 1: "authorization ?req = Some ''Bearer token-alice''" by (simp add: demoRequest_def)
  have 2: "startsWith ''Bearer token-alice'' ''Bearer ''" by (simp add: startsWith_def)
  have 3: "simulateVerifyToken demoCollaborators (tokenOf ''Bearer token-alice'')
             = Inr (Some (User ''alice@example.com''))"
    unfolding t by (simp add: demo_defs)
  have 4: "json ?req = Inr (RequestBody (Some ''erin@example.com''))" by (simp add: demoRequest_def)
  have 5: "''erin@example.com'' \<noteq> []" by simp
  have 6: "user_email (User ''alice@example.com'') \<noteq> ''erin@example.com''" by simp
  have w: "hasPregenWallet demoCollaborators ''alice@example.com'' = Inr True"
    by (simp add: demo_defs)
  have k: "getKeyShareInDB demoCollaborators ''alice@example.com'' = Inr (Some ''encrypted-share'')"
    by (simp add: demo_defs)
  from mismatched_email_forbidden[OF 1 2 3 4 5 6, of demoEnv] w k show ?thesis
    by (simp add: t)
qed

subsection \<open>The sequence of gates\<close>

text \<open>
  Against C5 as stated: a missing header and a token that does not verify are answered
  alike, with 401 and the body \<open>Unauthorized\<close>; and a decryption that returns the
  empty string is not stopped, the empty share is installed and the batch is submitted.
\<close>

theorem gates_not_distinct_counterexample:
  "fst (signWithAlchemy demoCollaborators demoEnv (demoRequest None (Some ''alice@example.com'')))
     = Returned (Response ''Unauthorized'' 401)
   \<and> fst (signWithAlchemy demoCollaborators demoEnv
            (demoRequest (Some ''Bearer token-mallory'') (Some ''alice@example.com'')))
     = Returned (Response ''Unauthorized'' 401)
   \<and> snd (signWithAlchemy demoCollaborators demoEnv
            (demoRequest (Some ''Bearer token-mallory'') (Some ''alice@example.com'')))
     = [SimulateVerifyToken (Some ''token-mallory'')]
   \<and> decrypt demoCollaborators ''stale-share'' = Inr []
   \<and> fst (signWithAlchemy demoCollaborators demoEnv
            (demoRequest (Some ''Bearer token-erin'') (Some ''erin@example.com'')))
     = Returned (Response ''{\"route\":\"signWithAlchemy\",\"userOperationResult\":{}}'' 200)
   \<and> take 7 (snd (signWithAlchemy demoCollaborators demoEnv
            (demoRequest (Some ''Bearer token-erin'') (Some ''erin@example.com''))))
     = [SimulateVerifyToken (Some ''token-erin''), ReqJson, NewParaServer ''para-key'',
        HasPregenWallet ''erin@example.com'', GetKeyShareInDB ''erin@example.com'',
        Decrypt ''stale-share'', SetUserShare []]"
  by code_simp

text \<open>
  C5 (amended). The handler enforces six gates in this order: the Authorization header,
  the token, the email (present, then equal to the verified user's), the deployment
  secrets, the wallet, the key share. Each answers with a response at once and calls no
  later collaborator. The responses differ from gate to gate, except that the first two
  gates share one. There is no gate on the decryption: when it throws, the handler's
  promise is rejected with what was thrown and nothing further is called; whatever it
  returns is installed as the user share next.
\<close>

theorem gate_sequence:
  "((case authorization req of None \<Rightarrow> True | Some a \<Rightarrow> \<not> startsWith a ''Bearer '')
      \<longrightarrow> signWithAlchemy c env req = (Returned (Response ''Unauthorized'' 401), []))
   \<and> (gate1 req h \<and> simulateVerifyToken c (tokenOf h) = Inr None
      \<longrightarrow> signWithAlchemy c env req =
          (Returned (Response ''Unauthorized'' 401), [SimulateVerifyToken (tokenOf h)]))
   \<and> (gate1 req h \<and> gate2 c h user \<and> json req = Inr (RequestBody noEmail) \<and> \<not> truthy noEmail
      \<longrightarrow> signWithAlchemy c env req =
          (Returned (Response ''Email is required'' 400),
           [SimulateVerifyToken (tokenOf h), ReqJson]))
   \<and> (gate1 req h \<and> gate2 c h user \<and> json req = Inr (RequestBody (Some other))
        \<and> other \<noteq> [] \<and> user_email user \<noteq> other
      \<longrightarrow> signWithAlchemy c env req =
          (Returned (Response ''Forbidden'' 403), [SimulateVerifyToken (tokenOf h), ReqJson]))
   \<and> (gate1 req h \<and> gate2 c h user \<and> gate3 req user email \<and> \<not> truthy (PARA_API_KEY env)
      \<longrightarrow> signWithAlchemy c env req =
          (Returned (Response ''PARA_API_KEY not set'' 500),
           [SimulateVerifyToken (tokenOf h), ReqJson]))
   \<and> (gate1 req h \<and> gate2 c h user \<and> gate3 req user email \<and> truthy (PARA_API_KEY env)
        \<and> (\<not> truthy (ALCHEMY_API_KEY env) \<or> \<not> truthy (ALCHEMY_GAS_POLICY_ID env))
      \<longrightarrow> signWithAlchemy c env req =
          (Returned (Response ''ALCHEMY_API_KEY or ALCHEMY_GAS_POLICY_ID not set'' 500),
           [SimulateVerifyToken (tokenOf h), ReqJson]))
   \<and> (gate1 req h \<and> gate2 c h user \<and> gate3 req user email \<and> gate4 env pk ak gp
        \<and> hasPregenWallet c email = Inr False
      \<longrightarrow> signWithAlchemy c env req =
          (Returned (Response ''Wallet does not exist'' 400),
           [SimulateVerifyToken (tokenOf h), ReqJson, NewParaServer pk, HasPregenWallet email]))
   \<and> (gate1 req h \<and> gate2 c h user \<and> gate3 req user email \<and> gate4 env pk ak gp
        \<and> gate5 c email \<and> getKeyShareInDB c email = Inr noShare \<and> \<not> truthy noShare
      \<longrightarrow> signWithAlchemy c env req =
          (Returned (Response ''Key share does not exist'' 400),
           [SimulateVerifyToken (tokenOf h), ReqJson, NewParaServer pk, HasPregenWallet email,
            GetKeyShareInDB email]))
   \<and> (gate1 req h \<and> gate2 c h user \<and> gate3 req user email \<and> gate4 env pk ak gp
        \<and> gate5 c email \<and> gate6 c email keyShare \<and> decrypt c keyShare = Inl e
      \<longrightarrow> signWithAlchemy c env req =
          (Rejected e,
           [SimulateVerifyToken (tokenOf h), ReqJson, NewParaServer pk, HasPregenWallet email,
            GetKeyShareInDB email, Decrypt keyShare]))
   \<and> (gate1 req h \<and> gate2 c h user \<and> gate3 req user email \<and> gate4 env pk ak gp
        \<and> gate5 c email \<and> gate6 c email keyShare \<and> decrypt c keyShare = Inr decrypted
      \<longrightarrow> take 7 (snd (signWithAlchemy c env req)) =
           [SimulateVerifyToken (tokenOf h), ReqJson, NewParaServer pk, HasPregenWallet email,
            GetKeyShareInDB email, Decrypt keyShare, SetUserShare decrypted])
   \<and> distinct [Response ''Unauthorized'' 401, Response ''Email is required'' 400,
        Response ''Forbidden'' 403, Response ''PARA_API_KEY not set'' 500,
        Response ''ALCHEMY_API_KEY or ALCHEMY_GAS_POLICY_ID not set'' 500,
        Response ''Wallet does not exist'' 400, Response ''Key share does not exist'' 400]"
  (is "?G1 \<and> ?G2 \<and> ?G3a \<and> ?G3b \<and> ?G4a \<and> ?G4b \<and> ?G5 \<and> ?G6 \<and> ?G7a \<and> ?G7b \<and> ?D")
proof -
  let ?V = "SimulateVerifyToken (tokenOf h)"
  have g1: ?G1 by (rule impI) (rule signWithAlchemy_no_bearer)
  have verified: "signWithAlchemy c env req = signWithAlchemy_body c env req user [?V]"
    if "gate1 req h" "gate2 c h user"
    using that signWithAlchemy_bearer[of req h c env] by (simp add: gate1_def gate2_def)
  have g2: ?G2
    using signWithAlchemy_bearer[of req h c env] by (simp add: gate1_def)
  have g3a: ?G3a
    using verified signWithAlchemy_body_no_email[of req noEmail c env user "[?V]"] by simp
  have g3b: ?G3b
    using verified signWithAlchemy_body_mismatch[of req other user c env "[?V]"] by simp
  have matched: "signWithAlchemy c env req = signWithAlchemy_env c env email [?V, ReqJson]"
    if "gate1 req h" "gate2 c h user" "gate3 req user email"
    using that verified signWithAlchemy_body_match[of req email user c env "[?V]"]
    by (simp add: gate3_def)
  have g4a: ?G4a
    using matched signWithAlchemy_env_no_para[of env c email "[?V, ReqJson]"] by simp
  have g4b: ?G4b
    using matched signWithAlchemy_env_no_alchemy[of env c email "[?V, ReqJson]"] by auto
  have configured: "signWithAlchemy c env req = signWithAlchemy_wallet c pk ak gp email [?V, ReqJson]"
    if "gate1 req h" "gate2 c h user" "gate3 req user email" "gate4 env pk ak gp"
    using that matched signWithAlchemy_env_set[of env pk ak gp c email "[?V, ReqJson]"]
    by (simp add: gate4_def)
  have g5: ?G5
    using configured signWithAlchemy_wallet_missing[of c email pk ak gp "[?V, ReqJson]"] by simp
  have haswallet: "signWithAlchemy c env req =
      signWithAlchemy_keyShare c ak gp email [?V, ReqJson, NewParaServer pk, HasPregenWallet email]"
    if "gate1 req h" "gate2 c h user" "gate3 req user email" "gate4 env pk ak gp" "gate5 c email"
    using that configured signWithAlchemy_wallet_exists[of c email pk ak gp "[?V, ReqJson]"]
    by (simp add: gate5_def)
  have g6: ?G6
    using haswallet signWithAlchemy_keyShare_missing[of c email noShare ak gp
        "[?V, ReqJson, NewParaServer pk, HasPregenWallet email]"]
    by simp
  have g7a: ?G7a
    using haswallet signWithAlchemy_keyShare_thrown[of c email keyShare e ak gp
        "[?V, ReqJson, NewParaServer pk, HasPregenWallet email]"]
    by (simp add: gate6_def)
  have g7b: ?G7b
  proof (intro impI, elim conjE)
    assume a: "gate1 req h" "gate2 c h user" "gate3 req user email" "gate4 env pk ak gp"
      "gate5 c email" and k: "gate6 c email keyShare" and d: "decrypt c keyShare = Inr decrypted"
    let ?t = "[?V, ReqJson, NewParaServer pk, HasPregenWallet email, GetKeyShareInDB email,
               Decrypt keyShare]"
    have "signWithAlchemy c env req = signWithAlchemy_submit c ak gp decrypted ?t"
      using haswallet[OF a] k d
        signWithAlchemy_keyShare_decrypted[of c email keyShare decrypted ak gp
          "[?V, ReqJson, NewParaServer pk, HasPregenWallet email]"]
      by (simp add: gate6_def)
    then show "take 7 (snd (signWithAlchemy c env req)) =
        [?V, ReqJson, NewParaServer pk, HasPregenWallet email, GetKeyShareInDB email,
         Decrypt keyShare, SetUserShare decrypted]"
      using signWithAlchemy_submit_first[of ?t c ak gp decrypted] by (simp add: eval_nat_numeral)
  qed
  have d: ?D by simp
  from g1 g2 g3a g3b g4a g4b g5 g6 g7a g7b d show ?thesis by blast
qed

lemmas gate_defs = gate1_def gate2_def gate3_def gate4_def gate5_def gate6_def

lemma demo_tokens:
  "tokenOf ''Bearer token-alice'' = Some ''token-alice''"
  "tokenOf ''Bearer token-bob'' = Some ''token-bob''"
  "tokenOf ''Bearer token-carol'' = Some ''token-carol''"
  "tokenOf ''Bearer token-dave'' = Some ''token-dave''"
  "tokenOf ''Bearer token-erin'' = Some ''token-erin''"
  "tokenOf ''Bearer token-mallory'' = Some ''token-mallory''"
  by code_simp+

theorem gate_sequence_witness:
  "signWithAlchemy demoCollaborators demoEnv (demoRequest None (Some ''alice@example.com''))
     = (Returned (Response ''Unauthorized'' 401), [])
   \<and> signWithAlchemy demoCollaborators demoEnv
       (demoRequest (Some ''Bearer token-mallory'') (Some ''alice@example.com''))
     = (Returned (Response ''Unauthorized'' 401), [SimulateVerifyToken (Some ''token-mallory'')])
   \<and> signWithAlchemy demoCollaborators demoEnv (demoRequest (Some ''Bearer token-alice'') None)
     = (Returned (Response ''Email is required'' 400),
        [SimulateVerifyToken (Some ''token-alice''), ReqJson])
   \<and> signWithAlchemy demoCollaborators demoEnv
       (demoRequest (Some ''Bearer token-alice'') (Some ''bob@example.com''))
     = (Returned (Response ''Forbidden'' 403),
        [SimulateVerifyToken (Some ''token-alice''), ReqJson])
   \<and> signWithAlchemy demoCollaborators (demoEnv\<lparr>PARA_API_KEY := None\<rparr>)
       (demoRequest (Some ''Bearer token-alice'') (Some ''alice@example.com''))
     = (Returned (Response ''PARA_API_KEY not set'' 500),
        [SimulateVerifyToken (Some ''token-alice''), ReqJson])
   \<and> signWithAlchemy demoCollaborators (demoEnv\<lparr>ALCHEMY_GAS_POLICY_ID := Some []\<rparr>)
       (demoRequest (Some ''Bearer token-alice'') (Some ''alice@example.com''))
     = (Returned (Response ''ALCHEMY_API_KEY or ALCHEMY_GAS_POLICY_ID not set'' 500),
        [SimulateVerifyToken (Some ''token-alice''), ReqJson])
   \<and> signWithAlchemy demoCollaborators demoEnv
       (demoRequest (Some ''Bearer token-bob'') (Some ''bob@example.com''))
     = (Returned (Response ''Wallet does not exist'' 400),
        [SimulateVerifyToken (Some ''token-bob''), ReqJson, NewParaServer ''para-key'',
         HasPregenWallet ''bob@example.com''])
   \<and> signWithAlchemy demoCollaborators demoEnv
       (demoRequest (Some ''Bearer token-carol'') (Some ''carol@example.com''))
     = (Returned (Response ''Key share does not exist'' 400),
        [SimulateVerifyToken (Some ''token-carol''), ReqJson, NewParaServer ''para-key'',
         HasPregenWallet ''carol@example.com'', GetKeyShareInDB ''carol@example.com''])
   \<and> signWithAlchemy demoCollaborators demoEnv
       (demoRequest (Some ''Bearer token-dave'') (Some ''dave@example.com''))
     = (Rejected (Thrown ''Malformed UTF-8 data''),
        [SimulateVerifyToken (Some ''token-dave''), ReqJson, NewParaServer ''para-key'',
         HasPregenWallet ''dave@example.com'', GetKeyShareInDB ''dave@example.com'',
         Decrypt ''corrupt-share''])
   \<and> take 7 (snd (signWithAlchemy demoCollaborators demoEnv
       (demoRequest (Some ''Bearer token-alice'') (Some ''alice@example.com''))))
     = [SimulateVerifyToken (Some ''token-alice''), ReqJson, NewParaServer ''para-key'',
        HasPregenWallet ''alice@example.com'', GetKeyShareInDB ''alice@example.com'',
        Decrypt ''encrypted-share'', SetUserShare ''share'']"
  (is "?W1 \<and> ?W2 \<and> ?W3a \<and> ?W3b \<and> ?W4a \<and> ?W4b \<and> ?W5 \<and> ?W6 \<and> ?W7a \<and> ?W7b")
proof -
  note ev = gate_defs demo_defs startsWith_def truthy_def demo_tokens
  have w1: ?W1
    using gate_sequence[where c = demoCollaborators and env = demoEnv
        and req = "demoRequest None (Some ''alice@example.com'')"]
    by (simp add: demoRequest_def)
  have w2: ?W2
    using gate_sequence[where c = demoCollaborators and env = demoEnv
        and req = "demoRequest (Some ''Bearer token-mallory'') (Some ''alice@example.com'')"
        and h = "''Bearer token-mallory''", THEN conjunct2, THEN conjunct1]
    by (simp add: ev)
  have w3a: ?W3a
    using gate_sequence[where c = demoCollaborators and env = demoEnv
        and req = "demoRequest (Some ''Bearer token-alice'') None"
        and h = "''Bearer token-alice''" and user = "User ''alice@example.com''"
        and noEmail = None, THEN conjunct2, THEN conjunct2, THEN conjunct1]
    by (simp add: ev)
  have w3b: ?W3b
    using gate_sequence[where c = demoCollaborators and env = demoEnv
        and req = "demoRequest (Some ''Bearer token-alice'') (Some ''bob@example.com'')"
        and h = "''Bearer token-alice''" and user = "User ''alice@example.com''"
        and other = "''bob@example.com''",
        THEN conjunct2, THEN conjunct2, THEN conjunct2, THEN conjunct1]
    by (simp add: ev)
  have w4a: ?W4a
    using gate_sequence[where c = demoCollaborators
        and req = "demoRequest (Some ''Bearer token-alice'') (Some ''alice@example.com'')"
        and h = "''Bearer token-alice''" and user = "User ''alice@example.com''"
        and email = "''alice@example.com''" and env = "demoEnv\<lparr>PARA_API_KEY := None\<rparr>",
        THEN conjunct2, THEN conjunct2, THEN conjunct2, THEN conjunct2, THEN conjunct1]
    by (simp add: ev)
  have w4b: ?W4b
    using gate_sequence[where c = demoCollaborators
        and req = "demoRequest (Some ''Bearer token-alice'') (Some ''alice@example.com'')"
        and h = "''Bearer token-alice''" and user = "User ''alice@example.com''"
        and email = "''alice@example.com''" and env = "demoEnv\<lparr>ALCHEMY_GAS_POLICY_ID := Some []\<rparr>",
        THEN conjunct2, THEN conjunct2, THEN conjunct2, THEN conjunct2, THEN conjunct2,
        THEN conjunct1]
    by (simp add: ev)
  have w5: ?W5
    using gate_sequence[where c = demoCollaborators and env = demoEnv
        and req = "demoRequest (Some ''Bearer token-bob'') (Some ''bob@example.com'')"
        and h = "''Bearer token-bob''" and user = "User ''bob@example.com''"
        and email = "''bob@example.com''" and pk = "''para-key''" and ak = "''alchemy-key''"
        and gp = "''policy''",
        THEN conjunct2, THEN conjunct2, THEN conjunct2, THEN conjunct2, THEN conjunct2,
        THEN conjunct2, THEN conjunct1]
    by (simp add: ev)
  have w6: ?W6
    using gate_sequence[where c = demoCollaborators and env = demoEnv
        and req = "demoRequest (Some ''Bearer token-carol'') (Some ''carol@example.com'')"
        and h = "''Bearer token-carol''" and user = "User ''carol@example.com''"
        and email = "''carol@example.com''" and pk = "''para-key''" and ak = "''alchemy-key''"
        and gp = "''policy''" and noShare = None,
        THEN conjunct2, THEN conjunct2, THEN conjunct2, THEN conjunct2, THEN conjunct2,
        THEN conjunct2, THEN conjunct2, THEN conjunct1]
    by (simp add: ev)
  have w7a: ?W7a
    using gate_sequence[where c = demoCollaborators and env = demoEnv
        and req = "demoRequest (Some ''Bearer token-dave'') (Some ''dave@example.com'')"
        and h = "''Bearer token-dave''" and user = "User ''dave@example.com''"
        and email = "''dave@example.com''" and pk = "''para-key''" and ak = "''alchemy-key''"
        and gp = "''policy''" and keyShare = "''corrupt-share''"
        and e = "Thrown ''Malformed UTF-8 data''",
        THEN conjunct2, THEN conjunct2, THEN conjunct2, THEN conjunct2, THEN conjunct2,
        THEN conjunct2, THEN conjunct2, THEN conjunct2, THEN conjunct1]
    by (simp add: ev)
  have w7b: ?W7b
    using gate_sequence[where c = demoCollaborators
        and req = "demoRequest (Some ''Bearer token-alice'') (Some ''alice@example.com'')"
        and h = "''Bearer token-alice''" and user = "User ''alice@example.com''"
        and email = "''alice@example.com''" and env = demoEnv and pk = "''para-key''" and ak = "''alchemy-key''"
        and gp = "''policy''" and keyShare = "''encrypted-share''" and decrypted = "''share''",
        THEN conjunct2, THEN conjunct2, THEN conjunct2, THEN conjunct2, THEN conjunct2,
        THEN conjunct2, THEN conjunct2, THEN conjunct2, THEN conjunct2, THEN conjunct1]
    by (simp add: ev)
  from w1 w2 w3a w3b w4a w4b w5 w6 w7a w7b show ?thesis by blast
qed

section \<open>Properties of the client widget\<close>

subsection \<open>Encoding and trimming\<close>

lemma codeUnit_bound: "unat (c :: codeUnit) < 65536"
  using unsigned_less[of c, where 'a = nat] by simp

lemma utf8_bytes: "list_all (\<lambda>b. b < 256) (utf8 s)"
proof (induction s rule: utf8.induct)
  case 1
  show ?case by simp
next
  case (2 c cs)
  have c: "unat c < 65536" by (rule codeUnit_bound)
  show ?case
  proof (cases cs)
    case Nil
    with c show ?thesis by (simp add: Let_def) arith
  next
    case (Cons d ds)
    have d: "unat d < 65536" by (rule codeUnit_bound)
    from 2 Cons c d show ?thesis
      by (simp add: Let_def) (auto simp: less_mult_imp_div_less)
  qed
qed

lemma dropWhile_all: "list_all P xs \<Longrightarrow> dropWhile P xs = []"
  by (simp add: list_all_iff)

lemma dropWhile_all_prefix: "list_all P xs \<Longrightarrow> dropWhile P (xs @ ys) = dropWhile P ys"
  by (induction xs) auto

lemma trim_padded:
  assumes "list_all isWhiteSpace pre" and "list_all isWhiteSpace suf"
  shows "trim (pre @ m @ suf) = trim m"
proof -
  let ?P = isWhiteSpace
  have pre: "dropWhile ?P (pre @ m @ suf) = dropWhile ?P (m @ suf)"
    using assms(1) by (rule dropWhile_all_prefix)
  have rsuf: "list_all ?P (rev suf)" using assms(2) by (simp add: list_all_iff)
  show ?thesis
  proof (cases "list_all ?P m")
    case True
    then have "list_all ?P (m @ suf)" using assms(2) by simp
    then have a: "dropWhile ?P (m @ suf) = []" by (rule dropWhile_all)
    have b: "dropWhile ?P m = []" using True by (rule dropWhile_all)
    show ?thesis unfolding trim_def pre a b by simp
  next
    case False
    then obtain x where "x \<in> set m" "\<not> ?P x" by (auto simp: list_all_iff)
    then have 1: "dropWhile ?P (m @ suf) = dropWhile ?P m @ suf"
      by (simp add: dropWhile_append1)
    have "dropWhile ?P (rev suf @ rev (dropWhile ?P m)) = dropWhile ?P (rev (dropWhile ?P m))"
      using rsuf by (rule dropWhile_all_prefix)
    then show ?thesis unfolding trim_def pre 1 by simp
  qed
qed

lemma handleSubmit_connected:
  assumes "isConnected" and "truthy walletId"
  shows "handleSubmit signMessage isConnected walletId st =
     (case signMessage (str walletId) (base64 (utf8 (trim (message st)))) of
        Inl e \<Rightarrow>
          (st\<lparr>isLoading := False,
              status := Status True Error ''Failed to sign message. Please try again.''\<rparr>,
           [PreventDefault, SignMessage (str walletId) (base64 (utf8 (trim (message st)))),
            ConsoleError e])
      | Inr res \<Rightarrow>
          if pendingTransactionId res \<noteq> None \<or> transactionReviewUrl res \<noteq> None
          then (st\<lparr>isLoading := False,
                   status := Status True Error ''Message signing was denied.''\<rparr>,
                [PreventDefault, SignMessage (str walletId) (base64 (utf8 (trim (message st))))])
          else (st\<lparr>isLoading := False,
                   signature := ''0x'' @ (case signatureField res of None \<Rightarrow> ''undefined''
                                          | Some s \<Rightarrow> s),
                   status := Status True Success ''Message signed successfully!''\<rparr>,
                [PreventDefault, SignMessage (str walletId) (base64 (utf8 (trim (message st))))]))"
  using assms
  by (simp add: handleSubmit_def handleSubmit_try_def Let_def split: sum.splits)

subsection \<open>Submitting without a wallet connection\<close>

text \<open>
  C8. When the form is submitted while no wallet connection is established, the handler
  sets the error status \<open>Please connect your wallet to sign a message.\<close> and returns;
  its only effect outside the component is \<open>preventDefault\<close>, so the signing function
  of the wallet SDK is not called.
\<close>

theorem not_connected_no_signing:
  assumes "\<not> isConnected"
  shows "handleSubmit signMessage isConnected walletId st =
     (st\<lparr>isLoading := False,
         status := Status True Error ''Please connect your wallet to sign a message.''\<rparr>,
      [PreventDefault])"
  using assms by (simp add: handleSubmit_def handleSubmit_try_def)

theorem not_connected_no_signing_witness:
  "handleSubmit demoSignMessage False (Some ''wallet-1'') (initialState (js ''hello'')) =
     (\<lparr> message = js ''hello'', signature = [], isLoading = False,
        status = Status True Error ''Please connect your wallet to sign a message.'' \<rparr>,
      [PreventDefault])"
proof -
  have h: "\<not> False" by simp
  from not_connected_no_signing[OF h, of demoSignMessage "Some ''wallet-1''" "initialState (js ''hello'')"]
  show ?thesis by (simp add: initialState_def)
qed

subsection \<open>A pending or review result\<close>

text \<open>
  C9. When the signing function returns an object that has a property
  \<open>pendingTransactionId\<close> or \<open>transactionReviewUrl\<close>, the handler sets the error status
  \<open>Message signing was denied.\<close> and leaves the signature in the state as it was.
\<close>

theorem pending_result_denied:
  assumes "isConnected" and "truthy walletId"
    and "signMessage (str walletId) (base64 (utf8 (trim (message st)))) = Inr res"
    and "pendingTransactionId res \<noteq> None \<or> transactionReviewUrl res \<noteq> None"
  shows "status (fst (handleSubmit signMessage isConnected walletId st))
           = Status True Error ''Message signing was denied.''
       \<and> signature (fst (handleSubmit signMessage isConnected walletId st)) = signature st
       \<and> snd (handleSubmit signMessage isConnected walletId st)
           = [PreventDefault, SignMessage (str walletId) (base64 (utf8 (trim (message st))))]"
  using assms(3,4) by (auto simp add: handleSubmit_connected[OF assms(1,2)])

theorem pending_result_denied_witness:
  "demoSignMessage ''wallet-review'' ''aGVsbG8='' =
     Inr \<lparr> pendingTransactionId = Some ''tx-1'',
           transactionReviewUrl = Some ''https://review.example/tx-1'',
           signatureField = None \<rparr>
   \<and> handleSubmit demoSignMessage True (Some ''wallet-review'')
        ((initialState (js ''hello''))\<lparr>signature := ''0xabcd''\<rparr>) =
     (\<lparr> message = js ''hello'', signature = ''0xabcd'', isLoading = False,
        status = Status True Error ''Message signing was denied.'' \<rparr>,
      [PreventDefault, SignMessage ''wallet-review'' ''aGVsbG8=''])"
proof -
  let ?st = "(initialState (js ''hello''))\<lparr>signature := ''0xabcd''\<rparr>"
  let ?res = "\<lparr> pendingTransactionId = Some ''tx-1'',
           transactionReviewUrl = Some ''https://review.example/tx-1'',
           signatureField = None \<rparr>"
  have b: "base64 (utf8 (trim (message ?st))) = ''aGVsbG8=''"
    by (simp add: initialState_def js_def trim_def isWhiteSpace_def Let_def base64Char_def)
  have 1: "True" by simp
  have 2: "truthy (Some ''wallet-review'')" by (simp add: truthy_def)
  have s: "demoSignMessage ''wallet-review'' ''aGVsbG8='' = Inr ?res"
    by (simp add: demoSignMessage_def)
  have 3: "demoSignMessage (str (Some ''wallet-review'')) (base64 (utf8 (trim (message ?st))))
      = Inr ?res"
    unfolding b using s by (simp add: str_def)
  have 4: "pendingTransactionId ?res \<noteq> None \<or> transactionReviewUrl ?res \<noteq> None" by simp
  note t = pending_result_denied[where signMessage = demoSignMessage and isConnected = True
      and walletId = "Some ''wallet-review''" and st = ?st and res = ?res, OF 1 2 3 4]
  have "handleSubmit demoSignMessage True (Some ''wallet-review'') ?st =
     (\<lparr> message = js ''hello'', signature = ''0xabcd'', isLoading = False,
        status = Status True Error ''Message signing was denied.'' \<rparr>,
      [PreventDefault, SignMessage ''wallet-review'' ''aGVsbG8=''])"
    using t unfolding b
    by (simp add: handleSubmit_def handleSubmit_try_def initialState_def str_def truthy_def Let_def
        prod_eq_iff split: sum.splits prod.splits if_splits)
  with s show ?thesis by simp
qed

subsection \<open>The payload sent to the signer\<close>

text \<open>
  C10. With a wallet connected, the one signing request of a submission carries the
  base64 encoding of the trimmed message, for every message, a list of UTF-16 code
  units; a message padded on either side with any of the white space that \<open>trim\<close>
  removes gives the same effects as the message itself.
\<close>

theorem signing_request_trimmed:
  assumes "isConnected" and "truthy walletId"
  shows "snd (handleSubmit signMessage isConnected walletId st) =
           [PreventDefault, SignMessage (str walletId) (base64 (utf8 (trim (message st))))]
           @ (case signMessage (str walletId) (base64 (utf8 (trim (message st)))) of
                Inl e \<Rightarrow> [ConsoleError e] | Inr res \<Rightarrow> [])
       \<and> (list_all isWhiteSpace pre \<and> list_all isWhiteSpace suf \<longrightarrow>
            snd (handleSubmit signMessage isConnected walletId
                   (st\<lparr>message := pre @ message st @ suf\<rparr>))
            = snd (handleSubmit signMessage isConnected walletId st))"
proof -
  have calls: "snd (handleSubmit signMessage isConnected walletId s) =
           [PreventDefault, SignMessage (str walletId) (base64 (utf8 (trim (message s))))]
           @ (case signMessage (str walletId) (base64 (utf8 (trim (message s)))) of
                Inl e \<Rightarrow> [ConsoleError e] | Inr res \<Rightarrow> [])" for s
    by (simp add: handleSubmit_connected[OF assms] split: sum.splits)
  have "snd (handleSubmit signMessage isConnected walletId (st\<lparr>message := pre @ message st @ suf\<rparr>))
            = snd (handleSubmit signMessage isConnected walletId st)"
    if "list_all isWhiteSpace pre" "list_all isWhiteSpace suf"
    unfolding calls using trim_padded[OF that, of "message st"] by simp
  with calls[of st] show ?thesis by blast
qed

theorem signing_request_trimmed_witness:
  "snd (handleSubmit demoSignMessage True (Some ''wallet-1'')
          (initialState (js ''hi '' @ [0x20AC])))
     = [PreventDefault, SignMessage ''wallet-1'' ''aGkg4oKs'']
   \<and> snd (handleSubmit demoSignMessage True (Some ''wallet-1'')
          (initialState ([0x3000, 0x20] @ (js ''hi '' @ [0x20AC]) @ [0xFEFF, 0x2028])))
     = [PreventDefault, SignMessage ''wallet-1'' ''aGkg4oKs'']"
proof -
  let ?m = "js ''hi '' @ [0x20AC]"
  let ?st = "initialState ?m"
  have 1: True by simp
  have 2: "truthy (Some ''wallet-1'')" by (simp add: truthy_def)
  have p: "list_all isWhiteSpace [0x3000, 0x20]" by (simp add: isWhiteSpace_def)
  have s: "list_all isWhiteSpace [0xFEFF, 0x2028]" by (simp add: isWhiteSpace_def)
  have b: "base64 (utf8 (trim ?m)) = ''aGkg4oKs''"
    by (simp add: js_def trim_def isWhiteSpace_def Let_def base64Char_def)
  have m: "?st\<lparr>message := [0x3000, 0x20] @ message ?st @ [0xFEFF, 0x2028]\<rparr>
      = initialState ([0x3000, 0x20] @ ?m @ [0xFEFF, 0x2028])"
    by (simp add: initialState_def)
  have ms: "message ?st = ?m" by (simp add: initialState_def)
  note t = signing_request_trimmed[where signMessage = demoSignMessage and isConnected = True
      and walletId = "Some ''wallet-1''" and st = ?st and pre = "[0x3000, 0x20]"
      and suf = "[0xFEFF, 0x2028]", OF 1 2]
  from t have a: "snd (handleSubmit demoSignMessage True (Some ''wallet-1'') ?st) =
      [PreventDefault, SignMessage ''wallet-1'' ''aGkg4oKs'']"
    unfolding ms b by (simp add: str_def demoSignMessage_def)
  from t p s have "snd (handleSubmit demoSignMessage True (Some ''wallet-1'')
        (?st\<lparr>message := [0x3000, 0x20] @ message ?st @ [0xFEFF, 0x2028]\<rparr>))
      = snd (handleSubmit demoSignMessage True (Some ''wallet-1'') ?st)"
    by blast
  with a show ?thesis unfolding m by simp
qed

end
